theory Spec2Isabelle
  imports Main
begin


section \<open>The tokenizer builder (todp_parser.py, create_tokenizer)\<close>

text \<open>
  Strings are lists of 8-bit characters. The regular expression classes used by the
  tokenizer pattern are written out over ASCII: \<^verbatim>\<open>\s\<close> is space, tab, newline,
  vertical tab, form feed and carriage return; \<^verbatim>\<open>\d\<close> is a decimal digit;
  a word character (for \<^verbatim>\<open>\b\<close>) is a letter, a digit or the underscore.
\<close>

definition is_space :: "char \<Rightarrow> bool" where
  "is_space c = (c \<in> set [CHR '' '', CHR 0x09, CHR 0x0A, CHR 0x0B, CHR 0x0C, CHR 0x0D])"

definition is_digit :: "char \<Rightarrow> bool" where
  "is_digit c = (c \<in> set ''0123456789'')"

definition is_alpha :: "char \<Rightarrow> bool" where
  "is_alpha c = (c \<in> set ''abcdefghijklmnopqrstuvwxyzABCDEFGHIJKLMNOPQRSTUVWXYZ'')"

definition is_word :: "char \<Rightarrow> bool" where
  "is_word c = (is_alpha c \<or> is_digit c \<or> c = CHR ''_'')"

text \<open>\<^verbatim>\<open>str.strip()\<close>: whitespace removed at both ends.\<close>

definition strip :: "string \<Rightarrow> string" where
  "strip s = rev (dropWhile is_space (rev (dropWhile is_space s)))"

text \<open>\<^verbatim>\<open>str.isalpha()\<close>: non-empty and every character alphabetic.\<close>

definition isalpha :: "string \<Rightarrow> bool" where
  "isalpha s = (s \<noteq> [] \<and> list_all is_alpha s)"

text \<open>
  A compiled operator pattern is a sequence of items: a literal character (what
  \<^verbatim>\<open>re.escape\<close> produces for each character of the symbol), \<^verbatim>\<open>\s*\<close> and \<^verbatim>\<open>\b\<close>.
\<close>

datatype pitem = Lit char | Spaces | WordB

text \<open>
  \<^verbatim>\<open>symbol_escape\<close>. The tests on the escaped text are tests on the symbol:
  \<^verbatim>\<open>re.escape\<close> works character by character and puts a backslash before every
  character that is not alphanumeric (the behaviour the function is written for: it
  looks for the four characters \<^verbatim>\<open>\:\:\<close>), so the escaped text ends in
  \<^verbatim>\<open>\(\<close> exactly when the symbol ends in an opening parenthesis, in \<^verbatim>\<open>\:\:\<close>
  exactly when it ends in two colons, and is alphabetic exactly when the symbol is.
  The call \<^verbatim>\<open>s.replace(r'\ ', '\s+')\<close> discards its result and changes nothing.
\<close>

definition symbol_escape :: "string \<Rightarrow> pitem list" where
  "symbol_escape s =
     (if s \<noteq> [] \<and> last s = CHR ''('' then
        map Lit (butlast s) @ [Spaces, Lit CHR ''('']
      else if 2 \<le> length s \<and> drop (length s - 2) s = ''::'' then
        map Lit (take (length s - 2) s) @ [Spaces, Lit CHR '':'', Lit CHR '':'']
      else if isalpha s then [WordB] @ map Lit s @ [WordB]
      else map Lit s)"

text \<open>
  Matching a pattern at a position: the character before the position (for
  \<^verbatim>\<open>\b\<close>) and the rest of the input; the result is the length matched.
  \<^verbatim>\<open>\s*\<close> is greedy and gives characters back when the rest fails.
\<close>

definition word_opt :: "char option \<Rightarrow> bool" where
  "word_opt c = (case c of None \<Rightarrow> False | Some x \<Rightarrow> is_word x)"

definition first_char :: "string \<Rightarrow> char option" where
  "first_char s = (case s of [] \<Rightarrow> None | c # _ \<Rightarrow> Some c)"

fun match_items :: "pitem list \<Rightarrow> char option \<Rightarrow> string \<Rightarrow> nat option" where
  "match_items [] prev s = Some 0"
| "match_items (Lit c # ps) prev [] = None"
| "match_items (Lit c # ps) prev (x # xs) =
     (if x = c then map_option Suc (match_items ps (Some x) xs) else None)"
| "match_items (WordB # ps) prev s =
     (if word_opt prev \<noteq> word_opt (first_char s) then match_items ps prev s else None)"
| "match_items (Spaces # ps) prev [] = match_items ps prev []"
| "match_items (Spaces # ps) prev (x # xs) =
     (if is_space x then
        (case match_items (Spaces # ps) (Some x) xs of
           Some n \<Rightarrow> Some (Suc n)
         | None \<Rightarrow> match_items ps prev (x # xs))
      else match_items ps prev (x # xs))"

text \<open>The alternation of the multi-character symbols: the first alternative that matches.\<close>

fun match_multi :: "pitem list list \<Rightarrow> char option \<Rightarrow> string \<Rightarrow> nat option" where
  "match_multi [] prev s = None"
| "match_multi (p # ps) prev s =
     (case match_items p prev s of Some n \<Rightarrow> Some n | None \<Rightarrow> match_multi ps prev s)"

text \<open>
  The compiled tokenizer: the escaped multi-character symbols in the order of the
  alternation, and the characters of the character class.
\<close>

record tokenizer =
  multi :: "pitem list list"
  singles :: "char list"

datatype re_error = ReError

text \<open>
  \<^verbatim>\<open>create_tokenizer\<close>. \<^verbatim>\<open>sorted\<close> is stable, as \<open>sort_key\<close> is. When no symbol
  has a single character the pattern holds the empty class \<^verbatim>\<open>[]\<close>, which swallows
  the text up to the next closing bracket, and \<^verbatim>\<open>re.compile\<close> raises. When no
  symbol has more than one character the joined alternation is the empty text, and
  the operator group is \<^verbatim>\<open>(|[...])\<close>: see \<open>match_operator\<close>.
\<close>

definition create_tokenizer :: "string list \<Rightarrow> re_error + tokenizer" where
  "create_tokenizer symbols =
     (let syms = sort_key (\<lambda>x. - int (length x)) (filter (\<lambda>s2. s2 \<noteq> []) (map strip symbols));
          fence = length (filter (\<lambda>i. 1 < length i) syms)
      in if drop fence syms = [] then Inl ReError
         else Inr \<lparr>multi = map symbol_escape (take fence syms),
                   singles = concat (drop fence syms)\<rparr>)"

subsection \<open>The four alternatives of the pattern\<close>

text \<open>
  First alternative, the literals:
  \<^verbatim>\<open>'[^']*' | "[^"]*" | (?:\d+|\.\d+)(?:\.\d*)?(?:[Ee][+-]?\d+)?\<close>.
\<close>

definition match_quoted :: "char \<Rightarrow> string \<Rightarrow> nat option" where
  "match_quoted q s =
     (case s of
        [] \<Rightarrow> None
      | c # cs \<Rightarrow>
          if c = q then
            (let body = takeWhile (\<lambda>x. x \<noteq> q) cs
             in if length body < length cs then Some (length body + 2) else None)
          else None)"

definition count_digits :: "string \<Rightarrow> nat" where
  "count_digits s = length (takeWhile is_digit s)"

definition match_mantissa :: "string \<Rightarrow> nat option" where
  "match_mantissa s =
     (if 0 < count_digits s then Some (count_digits s)
      else (case s of
              [] \<Rightarrow> None
            | c # cs \<Rightarrow>
                if c = CHR ''.'' \<and> 0 < count_digits cs then Some (1 + count_digits cs)
                else None))"

definition match_fraction :: "string \<Rightarrow> nat" where
  "match_fraction s =
     (case s of
        [] \<Rightarrow> 0
      | c # cs \<Rightarrow> if c = CHR ''.'' then 1 + count_digits cs else 0)"

definition match_exponent :: "string \<Rightarrow> nat" where
  "match_exponent s =
     (case s of
        [] \<Rightarrow> 0
      | c # cs \<Rightarrow>
          if c = CHR ''e'' \<or> c = CHR ''E'' then
            (case cs of
               [] \<Rightarrow> 0
             | d # ds \<Rightarrow>
                 if (d = CHR ''+'' \<or> d = CHR ''-'') \<and> 0 < count_digits ds
                 then 2 + count_digits ds
                 else if 0 < count_digits cs then 1 + count_digits cs
                 else 0)
          else 0)"

definition match_number :: "string \<Rightarrow> nat option" where
  "match_number s =
     (case match_mantissa s of
        None \<Rightarrow> None
      | Some n \<Rightarrow>
          (let f = match_fraction (drop n s);
               e = match_exponent (drop (n + f) s)
           in Some (n + f + e)))"

definition match_literal :: "string \<Rightarrow> nat option" where
  "match_literal s =
     (case match_quoted (CHR 0x27) s of
        Some n \<Rightarrow> Some n
      | None \<Rightarrow>
          (case match_quoted (CHR 0x22) s of
             Some n \<Rightarrow> Some n
           | None \<Rightarrow> match_number s))"

text \<open>
  Second alternative, the operators: \<^verbatim>\<open>(%s|[%s])\<close> filled with the joined
  multi-character patterns and the single characters. With no multi-character
  pattern the first alternative of the group is empty and matches the empty text at
  every position, before the character class is tried.
\<close>

definition match_operator :: "tokenizer \<Rightarrow> char option \<Rightarrow> string \<Rightarrow> nat option" where
  "match_operator tk prev s =
     (if multi tk = [] then Some 0
      else (case match_multi (multi tk) prev s of
              Some n \<Rightarrow> Some n
            | None \<Rightarrow>
                (case s of
                   [] \<Rightarrow> None
                 | c # _ \<Rightarrow> if c \<in> set (singles tk) then Some 1 else None)))"

text \<open>
  Third alternative, the names: \<^verbatim>\<open>(?:{[^}]+\})?[^/\[\]()@=|\s]+\<close>. When the braces
  match but no name character follows them, the optional part is given up and the
  name characters are taken from the start.
\<close>

definition name_char :: "char \<Rightarrow> bool" where
  "name_char c = (c \<notin> set ''/[]()@=|'' \<and> \<not> is_space c)"

definition match_braces :: "string \<Rightarrow> nat option" where
  "match_braces s =
     (case s of
        [] \<Rightarrow> None
      | c # cs \<Rightarrow>
          if c = CHR ''{'' then
            (let body = takeWhile (\<lambda>x. x \<noteq> CHR ''}'') cs
             in if body \<noteq> [] \<and> length body < length cs then Some (length body + 2) else None)
          else None)"

definition count_name :: "string \<Rightarrow> nat" where
  "count_name s = length (takeWhile name_char s)"

definition match_name :: "string \<Rightarrow> nat option" where
  "match_name s =
     (case match_braces s of
        Some b \<Rightarrow>
          if 0 < count_name (drop b s) then Some (b + count_name (drop b s))
          else if 0 < count_name s then Some (count_name s) else None
      | None \<Rightarrow> if 0 < count_name s then Some (count_name s) else None)"

text \<open>Fourth alternative: \<^verbatim>\<open>\s+\<close>.\<close>

definition match_spaces :: "string \<Rightarrow> nat option" where
  "match_spaces s =
     (let n = length (takeWhile is_space s) in if 0 < n then Some n else None)"

text \<open>
  A match object: where it starts, the text matched, and which of the three groups
  (literal, operator, name) took part; \<open>GNone\<close> is a match of the whitespace
  alternative, whose three groups are all \<^verbatim>\<open>None\<close>.
\<close>

datatype mgroup = GLiteral | GOperator | GName | GNone

record rmatch =
  span_start :: nat
  mtext :: string
  mgroup :: mgroup

definition match_at :: "tokenizer \<Rightarrow> char option \<Rightarrow> string \<Rightarrow> (mgroup \<times> nat) option" where
  "match_at tk prev s =
     (case match_literal s of
        Some n \<Rightarrow> Some (GLiteral, n)
      | None \<Rightarrow>
          (case match_operator tk prev s of
             Some n \<Rightarrow> Some (GOperator, n)
           | None \<Rightarrow>
               (case match_name s of
                  Some n \<Rightarrow> Some (GName, n)
                | None \<Rightarrow>
                    (case match_spaces s of
                       Some n \<Rightarrow> Some (GNone, n)
                     | None \<Rightarrow> None))))"

text \<open>
  \<^verbatim>\<open>tokenizer.finditer(source)\<close>: the matches from left to right. A position where
  nothing matches is passed over without a word. After an empty match the scan goes
  on one character further (the scanner of the interpreters the module was written
  for; an empty match is only possible with the empty operator alternative).
\<close>

function finditer_from :: "tokenizer \<Rightarrow> nat \<Rightarrow> char option \<Rightarrow> string \<Rightarrow> rmatch list" where
  "finditer_from tk pos prev [] =
     (case match_at tk prev [] of
        None \<Rightarrow> []
      | Some (g, n) \<Rightarrow> [\<lparr>span_start = pos, mtext = [], mgroup = g\<rparr>])"
| "finditer_from tk pos prev (c # cs) =
     (case match_at tk prev (c # cs) of
        None \<Rightarrow> finditer_from tk (pos + 1) (Some c) cs
      | Some (g, n) \<Rightarrow>
          (if n = 0 then
             \<lparr>span_start = pos, mtext = [], mgroup = g\<rparr> # finditer_from tk (pos + 1) (Some c) cs
           else
             \<lparr>span_start = pos, mtext = take n (c # cs), mgroup = g\<rparr>
               # finditer_from tk (pos + n) (Some (last (take n (c # cs)))) (drop n (c # cs))))"
  by pat_completeness auto
termination
  by (relation "measure (\<lambda>(tk, pos, prev, s). length s)") auto

definition finditer :: "tokenizer \<Rightarrow> string \<Rightarrow> rmatch list" where
  "finditer tk src = finditer_from tk 0 None src"


section \<open>Tokens and the symbol table (todp_parser.py, Token and Parser)\<close>

text \<open>
  Token values: the symbol or a name (a string), or the value of a numeric literal.
  A float or a decimal keeps the text it was read from; how such a value prints is
  a parameter of \<open>tree\<close>.
\<close>

datatype pyvalue = VStr string | VInt nat | VFloat string | VDecimal string

datatype syntax_kind =
    UnexpectedEnd
  | UnexpectedToken pyvalue
  | UnknownOperator string
  | UnexpectedMatch string

datatype error =
    ElementPathSyntaxError syntax_kind
  | KeyError string
  | ValueError string
  | InvalidOperation string
  | AttributeError string
  | IndexError
  | CompileError

text \<open>
  The parse-time behaviour attached to a token class. \<open>NudDefault\<close> and
  \<open>LedDefault\<close> are the methods of the base class, which call
  \<^verbatim>\<open>wrong_symbol\<close>; the others are the closures made by the registration helpers,
  with the binding power they were made with. (The helper \<^verbatim>\<open>postfix\<close> makes a
  closure that enters the interactive debugger and \<^verbatim>\<open>method\<close> attaches an
  arbitrary callable: neither is part of the model.)
\<close>

datatype nud_kind = NudDefault | NudLiteral | NudPrefix int

datatype led_kind = LedDefault | LedInfix int | LedInfixr int

record token_class =
  symbol :: string
  lbp :: int
  rbp :: int
  nud :: nud_kind
  led :: led_kind

datatype token = Token (cls: token_class) (tvalue: pyvalue) (operands: "token list")

text \<open>
  The symbol table in the order of registration; a class is found under its own
  symbol (\<^verbatim>\<open>alias\<close> is not part of the model). Registering a new symbol drops the
  compiled tokenizer.
\<close>

record parser =
  symbol_table :: "token_class list"
  tokenizer :: "tokenizer option"

definition lookup :: "parser \<Rightarrow> string \<Rightarrow> token_class option" where
  "lookup p k = find (\<lambda>c. symbol c = k) (symbol_table p)"

record kwargs =
  kw_lbp :: "int option"
  kw_rbp :: "int option"
  kw_nud :: "nud_kind option"
  kw_led :: "led_kind option"

definition no_kwargs :: kwargs where
  "no_kwargs = \<lparr>kw_lbp = None, kw_rbp = None, kw_nud = None, kw_led = None\<rparr>"

definition new_class :: "string \<Rightarrow> kwargs \<Rightarrow> token_class" where
  "new_class symb kw =
     \<lparr>symbol = symb,
      lbp = (case kw_lbp kw of None \<Rightarrow> 0 | Some v \<Rightarrow> v),
      rbp = (case kw_rbp kw of None \<Rightarrow> 0 | Some v \<Rightarrow> v),
      nud = (case kw_nud kw of None \<Rightarrow> NudDefault | Some f \<Rightarrow> f),
      led = (case kw_led kw of None \<Rightarrow> LedDefault | Some f \<Rightarrow> f)\<rparr>"

text \<open>
  Updating a registered class: \<^verbatim>\<open>lbp\<close> is only raised, the callables are
  replaced, and \<^verbatim>\<open>rbp\<close> (neither \<^verbatim>\<open>lbp\<close> nor callable) is left as it is.
\<close>

definition update_class :: "kwargs \<Rightarrow> token_class \<Rightarrow> token_class" where
  "update_class kw c =
     c\<lparr>lbp := (case kw_lbp kw of None \<Rightarrow> lbp c | Some v \<Rightarrow> if lbp c < v then v else lbp c),
       nud := (case kw_nud kw of None \<Rightarrow> nud c | Some f \<Rightarrow> f),
       led := (case kw_led kw of None \<Rightarrow> led c | Some f \<Rightarrow> f)\<rparr>"

definition register :: "parser \<Rightarrow> string \<Rightarrow> kwargs \<Rightarrow> parser" where
  "register p symb0 kw =
     (let symb = strip symb0
      in case lookup p symb of
           None \<Rightarrow> p\<lparr>symbol_table := symbol_table p @ [new_class symb kw], tokenizer := None\<rparr>
         | Some c \<Rightarrow>
             p\<lparr>symbol_table :=
                 map (\<lambda>d. if symbol d = symb then update_class kw d else d) (symbol_table p)\<rparr>)"

definition literal :: "parser \<Rightarrow> string \<Rightarrow> int \<Rightarrow> parser" where
  "literal p symb bp = register p symb (no_kwargs\<lparr>kw_lbp := Some bp, kw_nud := Some NudLiteral\<rparr>)"

definition prefix :: "parser \<Rightarrow> string \<Rightarrow> int \<Rightarrow> parser" where
  "prefix p symb bp =
     register p symb (no_kwargs\<lparr>kw_lbp := Some bp, kw_rbp := Some bp, kw_nud := Some (NudPrefix bp)\<rparr>)"

definition infix_reg :: "parser \<Rightarrow> string \<Rightarrow> int \<Rightarrow> parser" where
  "infix_reg p symb bp =
     register p symb (no_kwargs\<lparr>kw_lbp := Some bp, kw_rbp := Some bp, kw_led := Some (LedInfix bp)\<rparr>)"

definition infixr_reg :: "parser \<Rightarrow> string \<Rightarrow> int \<Rightarrow> parser" where
  "infixr_reg p symb bp =
     register p symb
       (no_kwargs\<lparr>kw_lbp := Some bp, kw_rbp := Some (bp - 1), kw_led := Some (LedInfixr bp)\<rparr>)"

definition special_symbols :: "string list" where
  "special_symbols = [''(end)'', ''(name)'', ''(string)'', ''(float)'', ''(decimal)'', ''(integer)'']"

text \<open>\<^verbatim>\<open>Parser.begin\<close> and \<^verbatim>\<open>Parser.end\<close>.\<close>

definition begin_reg :: "parser \<Rightarrow> parser" where
  "begin_reg p = p\<lparr>tokenizer := None\<rparr>"

definition end_reg :: "parser \<Rightarrow> error + parser" where
  "end_reg p =
     (let p1 = register p ''(end)'' no_kwargs
      in case create_tokenizer
                (filter (\<lambda>s. strip s \<notin> set special_symbols) (map symbol (symbol_table p1))) of
           Inl e \<Rightarrow> Inl CompileError
         | Inr tk \<Rightarrow> Inr (p1\<lparr>tokenizer := Some tk\<rparr>))"

definition empty_parser :: parser where
  "empty_parser = \<lparr>symbol_table = [], tokenizer = None\<rparr>"

subsection \<open>Rendering\<close>

fun join :: "string \<Rightarrow> string list \<Rightarrow> string" where
  "join sep [] = []"
| "join sep [x] = x"
| "join sep (x # y # ys) = x @ sep @ join sep (y # ys)"

definition digit_char :: "nat \<Rightarrow> char" where
  "digit_char d = ''0123456789'' ! d"

fun string_of_nat :: "nat \<Rightarrow> string" where
  "string_of_nat n =
     (if n < 10 then [digit_char n] else string_of_nat (n div 10) @ [digit_char (n mod 10)])"

declare string_of_nat.simps [simp del]

text \<open>\<^verbatim>\<open>'%s' % value\<close>; \<open>fr\<close> prints the floats and the decimals.\<close>

definition str_value :: "(pyvalue \<Rightarrow> string) \<Rightarrow> pyvalue \<Rightarrow> string" where
  "str_value fr v = (case v of VStr s \<Rightarrow> s | VInt n \<Rightarrow> string_of_nat n | _ \<Rightarrow> fr v)"

text \<open>\<^verbatim>\<open>Token.tree\<close>: a token is true when it has operands.\<close>

fun tree :: "(pyvalue \<Rightarrow> string) \<Rightarrow> token \<Rightarrow> string" where
  "tree fr (Token c v ops) =
     (if ops \<noteq> [] then ''('' @ str_value fr v @ '' '' @ join '' '' (map (tree fr) ops) @ '')''
      else ''('' @ str_value fr v @ '')'')"

text \<open>
  \<^verbatim>\<open>Token.wrong_symbol\<close> raises a syntax error that names the value of a token of
  one of the special classes and the symbol of any other token.
\<close>

definition wrong_symbol :: "token \<Rightarrow> error" where
  "wrong_symbol t =
     ElementPathSyntaxError (UnexpectedToken
       (if symbol (cls t) \<in> set special_symbols then tvalue t else VStr (symbol (cls t))))"

text \<open>\<^verbatim>\<open>Token.expected\<close>: \<open>None\<close> when nothing is raised.\<close>

definition expected :: "token \<Rightarrow> string list \<Rightarrow> error option" where
  "expected t symbols =
     (if symbols \<noteq> [] \<and> symbol (cls t) \<notin> set symbols then Some (wrong_symbol t) else None)"

definition unexpected :: "token \<Rightarrow> string list \<Rightarrow> error option" where
  "unexpected t symbols =
     (if symbols = [] \<or> symbol (cls t) \<in> set symbols then Some (wrong_symbol t) else None)"


section \<open>The parser instance: advance, expression, parse\<close>

record pstate =
  token :: "token option"
  pmatch :: "rmatch option"
  next_token :: "token option"
  next_match :: "rmatch option"
  tokens :: "rmatch list"
  source :: string

text \<open>\<^verbatim>\<open>Parser.__init__\<close>.\<close>

definition Parser_init :: "parser \<Rightarrow> error + pstate" where
  "Parser_init p =
     (if lookup p ''(end)'' = None \<or> tokenizer p = None
      then Inl (ValueError ''Incomplete parser class registration.'')
      else Inr \<lparr>token = None, pmatch = None, next_token = None, next_match = None,
                tokens = [], source = []\<rparr>)"

subsection \<open>The values of the literals\<close>

text \<open>
  \<^verbatim>\<open>int(literal)\<close> on a run of digits. \<^verbatim>\<open>float(literal)\<close> and
  \<^verbatim>\<open>Decimal(literal)\<close> on a text matched by the number pattern: such a text has one
  dot at most, or it starts with a dot and has two (\<^verbatim>\<open>.5.5\<close>), and then the
  conversion raises (\<^verbatim>\<open>ValueError\<close>, \<^verbatim>\<open>decimal.InvalidOperation\<close>).
\<close>

definition digit_val :: "char \<Rightarrow> nat" where
  "digit_val c = length (takeWhile (\<lambda>d. d \<noteq> c) ''0123456789'')"

definition int_of_literal :: "string \<Rightarrow> nat" where
  "int_of_literal s = foldl (\<lambda>a c. 10 * a + digit_val c) 0 s"

definition count_dots :: "string \<Rightarrow> nat" where
  "count_dots s = length (filter (\<lambda>c. c = CHR ''.'') s)"

definition float_of_literal :: "string \<Rightarrow> error + pyvalue" where
  "float_of_literal s = (if 1 < count_dots s then Inl (ValueError s) else Inr (VFloat s))"

definition decimal_of_literal :: "string \<Rightarrow> error + pyvalue" where
  "decimal_of_literal s = (if 1 < count_dots s then Inl (InvalidOperation s) else Inr (VDecimal s))"

text \<open>\<^verbatim>\<open>literal.strip("'\"")\<close>: both kinds of quote removed at both ends.\<close>

definition is_quote :: "char \<Rightarrow> bool" where
  "is_quote c = (c = CHR 0x27 \<or> c = CHR 0x22)"

definition strip_quotes :: "string \<Rightarrow> string" where
  "strip_quotes s = rev (dropWhile is_quote (rev (dropWhile is_quote s)))"

text \<open>
  A new token instance: \<^verbatim>\<open>token_class(parser, value)\<close>, the value being the symbol
  when none is given, with no operands.
\<close>

definition new_token :: "token_class \<Rightarrow> pyvalue option \<Rightarrow> token" where
  "new_token c v = Token c (case v of None \<Rightarrow> VStr (symbol c) | Some x \<Rightarrow> x) []"

text \<open>
  The token of a literal match. The class is looked up before the value is
  converted, and neither failure is caught.
\<close>

definition literal_token :: "parser \<Rightarrow> string \<Rightarrow> error + token" where
  "literal_token p lit =
     (case lit of
        [] \<Rightarrow> Inl IndexError
      | c # _ \<Rightarrow>
          if is_quote c then
            (case lookup p ''(string)'' of
               None \<Rightarrow> Inl (KeyError ''(string)'')
             | Some k \<Rightarrow> Inr (new_token k (Some (VStr (strip_quotes lit)))))
          else if CHR ''e'' \<in> set lit \<or> CHR ''E'' \<in> set lit then
            (case lookup p ''(float)'' of
               None \<Rightarrow> Inl (KeyError ''(float)'')
             | Some k \<Rightarrow>
                 (case float_of_literal lit of
                    Inl e \<Rightarrow> Inl e
                  | Inr v \<Rightarrow> Inr (new_token k (Some v))))
          else if CHR ''.'' \<in> set lit then
            (case lookup p ''(decimal)'' of
               None \<Rightarrow> Inl (KeyError ''(decimal)'')
             | Some k \<Rightarrow>
                 (case decimal_of_literal lit of
                    Inl e \<Rightarrow> Inl e
                  | Inr v \<Rightarrow> Inr (new_token k (Some v))))
          else
            (case lookup p ''(integer)'' of
               None \<Rightarrow> Inl (KeyError ''(integer)'')
             | Some k \<Rightarrow> Inr (new_token k (Some (VInt (int_of_literal lit))))))"

text \<open>
  The loop of \<^verbatim>\<open>advance\<close>: take matches from the token stream until one makes a
  token; whitespace matches are passed over; the end of the stream makes the
  \<^verbatim>\<open>(end)\<close> token. Only the lookup of an operator is guarded: a missing operator
  is a syntax error.
\<close>

function fetch :: "parser \<Rightarrow> pstate \<Rightarrow> (error \<times> pstate) + pstate" where
  "fetch p st =
     (case tokens st of
        [] \<Rightarrow>
          (case lookup p ''(end)'' of
             None \<Rightarrow> Inl (KeyError ''(end)'', st)
           | Some k \<Rightarrow> Inr (st\<lparr>next_token := Some (new_token k None)\<rparr>))
      | m # ms \<Rightarrow>
          (let st1 = st\<lparr>next_match := Some m, tokens := ms\<rparr>
           in case mgroup m of
                GOperator \<Rightarrow>
                  (case lookup p (filter (\<lambda>c. c \<noteq> CHR '' '') (mtext m)) of
                     None \<Rightarrow> Inl (ElementPathSyntaxError (UnknownOperator (mtext m)), st1)
                   | Some k \<Rightarrow> Inr (st1\<lparr>next_token := Some (new_token k None)\<rparr>))
              | GLiteral \<Rightarrow>
                  (case literal_token p (mtext m) of
                     Inl e \<Rightarrow> Inl (e, st1)
                   | Inr t \<Rightarrow> Inr (st1\<lparr>next_token := Some t\<rparr>))
              | GName \<Rightarrow>
                  (case lookup p ''(name)'' of
                     None \<Rightarrow> Inl (KeyError ''(name)'', st1)
                   | Some k \<Rightarrow> Inr (st1\<lparr>next_token := Some (new_token k (Some (VStr (mtext m))))\<rparr>))
              | GNone \<Rightarrow>
                  if strip (mtext m) \<noteq> []
                  then Inl (ElementPathSyntaxError (UnexpectedMatch (mtext m)), st1)
                  else fetch p st1))"
  by pat_completeness auto
termination
  by (relation "measure (\<lambda>(p, st). length (tokens st))") auto

declare fetch.simps [simp del]

definition is_end :: "token option \<Rightarrow> bool" where
  "is_end t = (case t of None \<Rightarrow> False | Some x \<Rightarrow> symbol (cls x) = ''(end)'')"

definition advance :: "parser \<Rightarrow> string list \<Rightarrow> pstate \<Rightarrow> (error \<times> pstate) + pstate" where
  "advance p symbols st =
     (if is_end (next_token st) then Inl (ElementPathSyntaxError UnexpectedEnd, st)
      else
        (case (case next_token st of None \<Rightarrow> None | Some nt \<Rightarrow> expected nt symbols) of
           Some e \<Rightarrow> Inl (e, st)
         | None \<Rightarrow> fetch p (st\<lparr>token := next_token st, pmatch := next_match st\<rparr>)))"

text \<open>
  \<^verbatim>\<open>expression\<close> and its loop, with the closures of the registration helpers
  written out: \<open>NudLiteral\<close> returns the token; \<open>NudPrefix bp\<close> replaces all the
  operands by one expression read at \<open>bp\<close>; \<open>LedInfix bp\<close> replaces the first
  operand slot by the left operand and an expression read at \<open>bp\<close>, \<open>LedInfixr bp\<close>
  by the left operand and an expression read at \<open>bp - 1\<close>. The recursion is bounded
  by a fuel argument; \<open>None\<close> is an exhausted fuel.
\<close>

type_synonym presult = "(error \<times> pstate) + (token \<times> pstate)"

definition set_operands :: "token \<Rightarrow> token list \<Rightarrow> token" where
  "set_operands t ops = Token (cls t) (tvalue t) ops"

fun expression :: "nat \<Rightarrow> parser \<Rightarrow> int \<Rightarrow> pstate \<Rightarrow> presult option"
  and led_loop :: "nat \<Rightarrow> parser \<Rightarrow> int \<Rightarrow> token \<Rightarrow> pstate \<Rightarrow> presult option" where
  "expression 0 p rb st = None"
| "expression (Suc n) p rb st =
     (case advance p [] st of
        Inl e \<Rightarrow> Some (Inl e)
      | Inr st1 \<Rightarrow>
          (case next_token st of
             None \<Rightarrow> Some (Inl (AttributeError ''nud'', st1))
           | Some tok \<Rightarrow>
               (case nud (cls tok) of
                  NudDefault \<Rightarrow> Some (Inl (wrong_symbol tok, st1))
                | NudLiteral \<Rightarrow> led_loop n p rb tok st1
                | NudPrefix bp \<Rightarrow>
                    (case expression n p bp st1 of
                       None \<Rightarrow> None
                     | Some (Inl e) \<Rightarrow> Some (Inl e)
                     | Some (Inr (x, st2)) \<Rightarrow> led_loop n p rb (set_operands tok [x]) st2))))"
| "led_loop 0 p rb left st = None"
| "led_loop (Suc n) p rb left st =
     (case next_token st of
        None \<Rightarrow> Some (Inl (AttributeError ''lbp'', st))
      | Some nt \<Rightarrow>
          if rb < lbp (cls nt) then
            (case advance p [] st of
               Inl e \<Rightarrow> Some (Inl e)
             | Inr st1 \<Rightarrow>
                 (case led (cls nt) of
                    LedDefault \<Rightarrow> Some (Inl (wrong_symbol nt, st1))
                  | LedInfix bp \<Rightarrow>
                      (case expression n p bp st1 of
                         None \<Rightarrow> None
                       | Some (Inl e) \<Rightarrow> Some (Inl e)
                       | Some (Inr (r, st2)) \<Rightarrow>
                           led_loop n p rb
                             (set_operands nt ([left, r] @ drop 1 (operands nt))) st2)
                  | LedInfixr bp \<Rightarrow>
                      (case expression n p (bp - 1) st1 of
                         None \<Rightarrow> None
                       | Some (Inl e) \<Rightarrow> Some (Inl e)
                       | Some (Inr (r, st2)) \<Rightarrow>
                           led_loop n p rb
                             (set_operands nt ([left, r] @ drop 1 (operands nt))) st2)))
          else Some (Inr (left, st)))"

text \<open>
  \<^verbatim>\<open>parse\<close>. The first statements of the \<^verbatim>\<open>try\<close> block: the source is kept, the
  token stream is made, the lookahead is primed and one expression is read. The fuel
  given to \<open>expression\<close> is two more than the matches still in the stream, which is
  always enough (\<open>expression_fuel\<close> below).
\<close>

definition top_expression :: "parser \<Rightarrow> pstate \<Rightarrow> string \<Rightarrow> presult option" where
  "top_expression p st src =
     (let st0 = st\<lparr>source := src\<rparr>
      in case tokenizer p of
           None \<Rightarrow> Some (Inl (AttributeError ''finditer'', st0))
         | Some tk \<Rightarrow>
             (case advance p [] (st0\<lparr>tokens := finditer tk src\<rparr>) of
                Inl e \<Rightarrow> Some (Inl e)
              | Inr st1 \<Rightarrow> expression (length (tokens st1) + 2) p 0 st1))"

text \<open>
  The rest of the \<^verbatim>\<open>try\<close> block: the lookahead has to be the \<^verbatim>\<open>(end)\<close> token, or
  \<^verbatim>\<open>unexpected()\<close> raises; then the \<^verbatim>\<open>finally\<close> clause on every path. The result of
  \<open>parse\<close> is what is returned or raised, with the state the parser is left in.
\<close>

definition parse_body :: "parser \<Rightarrow> pstate \<Rightarrow> string \<Rightarrow> presult option" where
  "parse_body p st src =
     (case top_expression p st src of
        None \<Rightarrow> None
      | Some (Inl e) \<Rightarrow> Some (Inl e)
      | Some (Inr (root_token, st2)) \<Rightarrow>
          (case next_token st2 of
             None \<Rightarrow> Some (Inl (AttributeError ''symbol'', st2))
           | Some nt \<Rightarrow>
               if symbol (cls nt) \<noteq> ''(end)'' then
                 (case unexpected nt [] of
                    Some e \<Rightarrow> Some (Inl (e, st2))
                  | None \<Rightarrow> Some (Inr (root_token, st2)))
               else Some (Inr (root_token, st2))))"

definition finally_clause :: "pstate \<Rightarrow> pstate" where
  "finally_clause st = st\<lparr>tokens := [], next_token := None\<rparr>"

definition parse :: "parser \<Rightarrow> pstate \<Rightarrow> string \<Rightarrow> ((error + token) \<times> pstate) option" where
  "parse p st src =
     (case parse_body p st src of
        None \<Rightarrow> None
      | Some (Inl (e, st')) \<Rightarrow> Some (Inl e, finally_clause st')
      | Some (Inr (t, st')) \<Rightarrow> Some (Inr t, finally_clause st'))"

subsection \<open>The parsers of the scenarios\<close>

text \<open>
  The parser with an integer literal, \<^verbatim>\<open>+\<close> registered by \<open>infix_reg\<close> at 10 and
  \<^verbatim>\<open>*\<close> at 20, and nothing else; and the same parser with one more operator of
  two characters.
\<close>

definition arith_parser :: "error + parser" where
  "arith_parser =
     end_reg (infix_reg (infix_reg (literal empty_parser ''(integer)'' 0) ''+'' 10) ''*'' 20)"

definition arith_parser2 :: "error + parser" where
  "arith_parser2 =
     end_reg (infix_reg (infix_reg (infix_reg (literal empty_parser ''(integer)'' 0)
       ''+'' 10) ''*'' 20) ''**'' 30)"

text \<open>
  The parser with a name literal, \<^verbatim>\<open>+\<close> registered by \<open>infix_reg\<close> and \<^verbatim>\<open>^\<close> by
  \<open>infixr_reg\<close> at the same binding power; and the same parser with one more
  operator of two characters.
\<close>

definition assoc_parser :: "int \<Rightarrow> error + parser" where
  "assoc_parser bp =
     end_reg (infixr_reg (infix_reg (literal empty_parser ''(name)'' 0) ''+'' bp) ''^'' bp)"

definition assoc_parser2 :: "int \<Rightarrow> error + parser" where
  "assoc_parser2 bp =
     end_reg (infix_reg (infixr_reg (infix_reg (literal empty_parser ''(name)'' 0)
       ''+'' bp) ''^'' bp) ''<='' 5)"


text \<open>What a fresh instance of a registered parser returns or raises on a source.\<close>

definition run_parser :: "error + parser \<Rightarrow> string \<Rightarrow> (error + token) option" where
  "run_parser ep src =
     (case ep of
        Inl e \<Rightarrow> Some (Inl e)
      | Inr p \<Rightarrow>
          (case Parser_init p of
             Inl e \<Rightarrow> Some (Inl e)
           | Inr st \<Rightarrow> map_option fst (parse p st src)))"

text \<open>
  The tokens a source is cut into for a set of symbols: the text and the group of
  every match that is not whitespace.
\<close>

definition token_texts :: "string list \<Rightarrow> string \<Rightarrow> re_error + (string \<times> mgroup) list" where
  "token_texts symbols src =
     (case create_tokenizer symbols of
        Inl e \<Rightarrow> Inl e
      | Inr tk \<Rightarrow>
          Inr (map (\<lambda>m. (mtext m, mgroup m)) (filter (\<lambda>m. mgroup m \<noteq> GNone) (finditer tk src))))"

text \<open>
  What is left to read: the matches still in the stream, and one more while the
  lookahead is not the \<^verbatim>\<open>(end)\<close> token. Every call of \<open>advance\<close> that returns
  makes it smaller.
\<close>

definition remaining :: "pstate \<Rightarrow> nat" where
  "remaining st = length (tokens st) + (if is_end (next_token st) then 0 else 1)"

text \<open>The symbols as \<open>create_tokenizer\<close> keeps them: stripped, the empty ones dropped.\<close>

definition stripped :: "string list \<Rightarrow> string list" where
  "stripped symbols = filter (\<lambda>s2. s2 \<noteq> []) (map strip symbols)"





section \<open>The tree data model (xpath_nodes.py) and its construction (xpath_context.py)\<close>

text \<open>
  The tree handed in by the caller is an ElementTree: an element has an identity, a
  tag (a string, or the callable tag of a comment or of a processing instruction),
  text, tail, attributes in insertion order, an optional namespace map (lxml
  elements have one, the elements of the standard library have none) and children.
\<close>

datatype tag = Tag string | Comment | ProcessingInstruction

datatype etree =
  Element (eid: nat) (etag: tag) (etext: "string option") (etail: "string option")
    (attrib: "(string \<times> string) list") (ensmap: "(string option \<times> string) list option")
    (kids: "etree list")

text \<open>
  Python values as the two modules pass them around: nothing is typed at run time,
  and a constructor stores whatever it is given. \<open>PContext\<close> is the context object
  itself, \<open>PRaw\<close> an element of the caller's tree, \<open>PRawDoc\<close> the caller's document
  (an object with \<^verbatim>\<open>getroot\<close>), \<open>PRef\<close> a node object, by its address in the store,
  \<open>PList\<close> a list.
\<close>

datatype pyobj =
    PNone | PInt int | PStr string | PBool bool | PContext
  | PRaw etree | PRawDoc etree | PRef nat | PList "pyobj list"

datatype node_kind =
    DocumentNode | ElementNode | AttributeNode | NamespaceNode | TextNode
  | CommentNode | ProcessingInstructionNode

text \<open>
  A node object. The slots of the seven classes are put in one record: \<open>elem\<close> is
  \<^verbatim>\<open>elem\<close> of an element, comment or processing instruction and \<^verbatim>\<open>document\<close> of a
  document node; \<open>node_name\<close> is the name of an attribute and the prefix of a
  namespace node; \<open>node_value\<close> is the value of an attribute or text node and the
  URI of a namespace node; the two caches are the lazy lists of an element.

  \<open>node_context\<close> is the attribute \<^verbatim>\<open>context\<close> that the axis iterators read on an element
  node. The classes of xpath_nodes.py have no such slot, so a node made by their
  constructors has \<open>None\<close> here and reading it raises \<^verbatim>\<open>AttributeError\<close>; the field
  lets the iterators be followed on node objects that do carry the attribute.
\<close>

record xnode =
  kind :: node_kind
  parent :: pyobj
  position :: pyobj
  elem :: pyobj
  node_name :: pyobj
  node_value :: pyobj
  nsmap :: "(pyobj \<times> string) list"
  children :: "nat list"
  namespace_nodes_cache :: "nat list option"
  attributes_cache :: "nat list option"
  node_context :: "pyobj option"

type_synonym heap = "xnode list"

definition alloc :: "heap \<Rightarrow> xnode \<Rightarrow> nat \<times> heap" where
  "alloc h n = (length h, h @ [n])"

definition blank_node :: "node_kind \<Rightarrow> xnode" where
  "blank_node k =
     \<lparr>kind = k, parent = PNone, position = PInt 1, elem = PNone, node_name = PNone,
      node_value = PNone, nsmap = [], children = [], namespace_nodes_cache = None,
      attributes_cache = None, node_context = None\<rparr>"

subsection \<open>The constructors, with their positional parameters\<close>

text \<open>
  \<^verbatim>\<open>ElementNode.__init__(self, elem, parent=None, position=1, nsmap=None, xsd_type=None)\<close>.
  Without a namespace map the one of \<^verbatim>\<open>elem\<close> is taken, and the empty map when
  \<^verbatim>\<open>elem\<close> has none.
\<close>

definition nsmap_of :: "pyobj \<Rightarrow> (pyobj \<times> string) list" where
  "nsmap_of v =
     (case v of
        PRaw e \<Rightarrow>
          (case ensmap e of
             None \<Rightarrow> []
           | Some m \<Rightarrow> map (\<lambda>(k, u). (case k of None \<Rightarrow> PNone | Some s \<Rightarrow> PStr s, u)) m)
      | _ \<Rightarrow> [])"

definition ElementNode_init ::
  "pyobj \<Rightarrow> pyobj \<Rightarrow> pyobj \<Rightarrow> (pyobj \<times> string) list option \<Rightarrow> xnode" where
  "ElementNode_init el par pos nsm =
     (blank_node ElementNode)
       \<lparr>elem := el, parent := par, position := pos,
        nsmap := (case nsm of Some m \<Rightarrow> m | None \<Rightarrow> nsmap_of el)\<rparr>"

text \<open>\<^verbatim>\<open>DocumentNode.__init__(self, document, position=1)\<close>.\<close>

definition DocumentNode_init :: "pyobj \<Rightarrow> pyobj \<Rightarrow> xnode" where
  "DocumentNode_init doc pos = (blank_node DocumentNode)\<lparr>elem := doc, position := pos\<rparr>"

text \<open>\<^verbatim>\<open>CommentNode.__init__(self, elem, parent=None, position=1)\<close>, and the same for
  \<^verbatim>\<open>ProcessingInstructionNode\<close>.\<close>

definition CommentNode_init :: "pyobj \<Rightarrow> pyobj \<Rightarrow> pyobj \<Rightarrow> xnode" where
  "CommentNode_init el par pos =
     (blank_node CommentNode)\<lparr>elem := el, parent := par, position := pos\<rparr>"

definition ProcessingInstructionNode_init :: "pyobj \<Rightarrow> pyobj \<Rightarrow> pyobj \<Rightarrow> xnode" where
  "ProcessingInstructionNode_init el par pos =
     (blank_node ProcessingInstructionNode)\<lparr>elem := el, parent := par, position := pos\<rparr>"

text \<open>\<^verbatim>\<open>TextNode.__init__(self, value, parent=None, position=1)\<close>.\<close>

definition TextNode_init :: "pyobj \<Rightarrow> pyobj \<Rightarrow> pyobj \<Rightarrow> xnode" where
  "TextNode_init v par pos =
     (blank_node TextNode)\<lparr>node_value := v, parent := par, position := pos\<rparr>"

text \<open>\<^verbatim>\<open>AttributeNode.__init__(self, name, value, parent=None, position=1, xsd_type=None)\<close>.\<close>

definition AttributeNode_init :: "pyobj \<Rightarrow> pyobj \<Rightarrow> pyobj \<Rightarrow> pyobj \<Rightarrow> xnode" where
  "AttributeNode_init n v par pos =
     (blank_node AttributeNode)\<lparr>node_name := n, node_value := v, parent := par, position := pos\<rparr>"

text \<open>\<^verbatim>\<open>NamespaceNode.__init__(self, prefix, uri, parent=None, position=1)\<close>.\<close>

definition NamespaceNode_init :: "pyobj \<Rightarrow> pyobj \<Rightarrow> pyobj \<Rightarrow> pyobj \<Rightarrow> xnode" where
  "NamespaceNode_init pfx uri par pos =
     (blank_node NamespaceNode)\<lparr>node_name := pfx, node_value := uri, parent := par, position := pos\<rparr>"

datatype node_error =
    TypeError string | NodeAttributeError string | NameError string | NodeIndexError
  | RuntimeError

subsection \<open>The lazy lists of an element\<close>

definition XML_NAMESPACE :: string where
  "XML_NAMESPACE = ''http://www.w3.org/XML/1998/namespace''"

text \<open>The loop of \<^verbatim>\<open>namespace_nodes\<close> over the items of the namespace map.\<close>

fun namespace_loop ::
  "nat \<Rightarrow> (pyobj \<times> string) list \<Rightarrow> int \<Rightarrow> nat list \<Rightarrow> heap \<Rightarrow> nat list \<times> heap" where
  "namespace_loop self [] pos acc h = (acc, h)"
| "namespace_loop self ((pfx, uri) # rest) pos acc h =
     (if pfx \<noteq> PStr ''xml'' then
        (let (a, h1) = alloc h (NamespaceNode_init pfx (PStr uri) (PRef self) (PInt pos))
         in namespace_loop self rest (pos + 1) (acc @ [a]) h1)
      else namespace_loop self rest pos acc h)"

text \<open>
  \<^verbatim>\<open>ElementNode.namespace_nodes\<close>: the cached list, or on the first access the
  implicit \<^verbatim>\<open>xml\<close> node at the element's position plus one and the other prefixes
  after it. Adding one to a position that is not an integer raises.
\<close>

definition namespace_nodes :: "heap \<Rightarrow> nat \<Rightarrow> node_error + (nat list \<times> heap)" where
  "namespace_nodes h self =
     (case namespace_nodes_cache (h ! self) of
        Some l \<Rightarrow> Inr (l, h)
      | None \<Rightarrow>
          (case position (h ! self) of
             PInt p \<Rightarrow>
               (let (a, h1) = alloc h (NamespaceNode_init (PStr ''xml'') (PStr XML_NAMESPACE)
                                         (PRef self) (PInt (p + 1)));
                    (l, h2) = namespace_loop self (nsmap (h1 ! self)) (p + 2) [a] h1
                in Inr (l, h2[self := (h2 ! self)\<lparr>namespace_nodes_cache := Some l\<rparr>]))
           | _ \<Rightarrow> Inl (TypeError ''unsupported operand type(s) for +'')))"

text \<open>The list comprehension of \<^verbatim>\<open>attributes\<close> over \<^verbatim>\<open>enumerate(items, position)\<close>.\<close>

fun attributes_loop ::
  "nat \<Rightarrow> (string \<times> string) list \<Rightarrow> int \<Rightarrow> nat list \<Rightarrow> heap \<Rightarrow> nat list \<times> heap" where
  "attributes_loop self [] pos acc h = (acc, h)"
| "attributes_loop self ((n, v) # rest) pos acc h =
     (let (a, h1) = alloc h (AttributeNode_init (PStr n) (PStr v) (PRef self) (PInt pos))
      in attributes_loop self rest (pos + 1) (acc @ [a]) h1)"

text \<open>
  \<^verbatim>\<open>ElementNode.attributes\<close>: the cached list, or on the first access one node for
  each item of \<^verbatim>\<open>self.elem.attrib\<close>, numbered from
  \<^verbatim>\<open>self.position + len(self.nsmap) + int('xml' not in self.nsmap)\<close>.
\<close>

definition attributes :: "heap \<Rightarrow> nat \<Rightarrow> node_error + (nat list \<times> heap)" where
  "attributes h self =
     (case attributes_cache (h ! self) of
        Some l \<Rightarrow> Inr (l, h)
      | None \<Rightarrow>
          (case position (h ! self) of
             PInt p \<Rightarrow>
               (case elem (h ! self) of
                  PRaw e \<Rightarrow>
                    (let pos = p + int (length (nsmap (h ! self)))
                                 + (if PStr ''xml'' \<notin> fst ` set (nsmap (h ! self)) then 1 else 0);
                         (l, h1) = attributes_loop self (attrib e) pos [] h
                     in Inr (l, h1[self := (h1 ! self)\<lparr>attributes_cache := Some l\<rparr>]))
                | _ \<Rightarrow> Inl (NodeAttributeError ''attrib''))
           | _ \<Rightarrow> Inl (TypeError ''unsupported operand type(s) for +'')))"

text \<open>The positions of a list of nodes of the store.\<close>

definition positions :: "heap \<Rightarrow> nat list \<Rightarrow> pyobj list" where
  "positions h l = map (\<lambda>a. position (h ! a)) l"

subsection \<open>Building the node tree\<close>

text \<open>
  The node made for a child of the caller's tree. \<^verbatim>\<open>_build_nodes\<close> calls the
  constructors with the context as first argument, \<^verbatim>\<open>ElementNode(self, elem, parent)\<close>,
  and the constructors of xpath_nodes.py have no parameter for it: the context is
  bound to \<^verbatim>\<open>elem\<close>, the element to \<^verbatim>\<open>parent\<close> and the parent node to
  \<^verbatim>\<open>position\<close>.
\<close>

definition child_node :: "etree \<Rightarrow> nat \<Rightarrow> xnode" where
  "child_node e par =
     (case etag e of
        Tag t \<Rightarrow> ElementNode_init PContext (PRaw e) (PRef par) None
      | Comment \<Rightarrow> CommentNode_init PContext (PRaw e) (PRef par)
      | ProcessingInstruction \<Rightarrow> ProcessingInstructionNode_init PContext (PRaw e) (PRef par))"

definition append_child :: "heap \<Rightarrow> nat \<Rightarrow> nat \<Rightarrow> heap" where
  "append_child h par c = h[par := (h ! par)\<lparr>children := children (h ! par) @ [c]\<rparr>]"

fun esize :: "etree \<Rightarrow> nat" where
  "esize (Element i t x l a n ks) = Suc (sum_list (map esize ks))"

definition forest_size :: "etree list \<Rightarrow> nat" where
  "forest_size es = sum_list (map esize es)"

text \<open>
  The loop of \<^verbatim>\<open>_build_nodes\<close>: the iterator over the pending siblings, the current
  parent node, and the two stacks (the top is the head of the list). A tail text
  makes the call \<^verbatim>\<open>TextNode(self, elem.tail, parent, tail=True)\<close>, which raises:
  \<^verbatim>\<open>TextNode.__init__\<close> has no keyword \<^verbatim>\<open>tail\<close>. The loop ends when a stack is empty.
\<close>

function build_loop ::
  "etree list \<Rightarrow> nat \<Rightarrow> etree list list \<Rightarrow> nat list \<Rightarrow> heap \<Rightarrow> node_error + heap" where
  "build_loop [] par iterators ancestors h =
     (case (iterators, ancestors) of
        (it # its, a # ans) \<Rightarrow> build_loop it a its ans h
      | _ \<Rightarrow> Inr h)"
| "build_loop (e # rest) par iterators ancestors h =
     (let (c, h1) = alloc h (child_node e par);
          h2 = append_child h1 par c
      in if etail e \<noteq> None then Inl (TypeError ''unexpected keyword argument tail'')
         else if kids e \<noteq> [] then build_loop (kids e) c (rest # iterators) (par # ancestors) h2
         else build_loop rest par iterators ancestors h2)"
  by pat_completeness auto
termination
  apply (relation "measure (\<lambda>(cs, par, its, ans, h).
           2 * (forest_size cs + sum_list (map forest_size its)) + length its)")
    apply (auto simp: forest_size_def)
   apply (case_tac [!] e)
   apply auto
  done

text \<open>
  The top-level nodes of a document: what \<^verbatim>\<open>etree_iter_root\<close> yields (a function of
  the module etree, which is not among the sources, taken as a parameter) becomes
  the children of the document node; \<open>last_child\<close> is the variable \<^verbatim>\<open>child\<close>,
  bound by the element branch only.
\<close>

fun top_level_loop :: "etree list \<Rightarrow> nat \<Rightarrow> nat option \<Rightarrow> heap \<Rightarrow> nat option \<times> heap" where
  "top_level_loop [] par last_child h = (last_child, h)"
| "top_level_loop (e # rest) par last_child h =
     (let (c, h1) = alloc h (child_node e par);
          h2 = append_child h1 par c
      in top_level_loop rest par (case etag e of Tag t \<Rightarrow> Some c | _ \<Rightarrow> last_child) h2)"

text \<open>
  \<^verbatim>\<open>_build_nodes(root)\<close> on an empty store: the root node is at address 0. The root
  element node is made by \<^verbatim>\<open>ElementNode(self, root)\<close> and keeps the default
  position 1; the document node is made by \<^verbatim>\<open>DocumentNode(self, document)\<close>.
\<close>

definition build_nodes :: "(etree \<Rightarrow> etree list) \<Rightarrow> pyobj \<Rightarrow> node_error + heap" where
  "build_nodes etree_iter_root root =
     (case root of
        PRawDoc r \<Rightarrow>
          (let (d, h0) = alloc [] (DocumentNode_init PContext (PRawDoc r));
               (last_child, h1) = top_level_loop (etree_iter_root r) d None h0
           in case last_child of
                None \<Rightarrow> Inl (NameError ''child'')
              | Some c \<Rightarrow> build_loop (kids r) c [] [] h1)
      | PRaw r \<Rightarrow>
          (let (n, h0) = alloc [] (ElementNode_init PContext (PRaw r) (PInt 1) None)
           in build_loop (kids r) n [] [] h0)
      | _ \<Rightarrow> Inl (TypeError ''object is not iterable''))"

text \<open>The standard library's \<^verbatim>\<open>etree_iter_root\<close>: the root element alone.\<close>

definition std_iter_root :: "etree \<Rightarrow> etree list" where
  "std_iter_root r = [r]"

text \<open>The tree \<^verbatim>\<open><A><B1/><B2/></A>\<close>, and an element with one attribute.\<close>

definition leaf :: "nat \<Rightarrow> string \<Rightarrow> etree" where
  "leaf i t = Element i (Tag t) None None [] None []"

definition tree_A :: etree where
  "tree_A = Element 0 (Tag ''A'') None None [] None [leaf 1 ''B1'', leaf 2 ''B2'']"

definition elem_with_attr :: etree where
  "elem_with_attr = Element 0 (Tag ''A'') None None [(''a'', ''1'')] None []"

definition heap_with_attr :: heap where
  "heap_with_attr = [ElementNode_init (PRaw elem_with_attr) PNone (PInt 1) None]"

text \<open>The same element with a default namespace and a prefix in its namespace map.\<close>

definition heap_with_nsmap :: heap where
  "heap_with_nsmap =
     [ElementNode_init (PRaw elem_with_attr) PNone (PInt 1)
        (Some [(PNone, ''http://example.org/u''), (PStr ''p'', ''http://example.org/v'')])]"

text \<open>The store of a context built on an element of the caller's tree.\<close>

definition built_store :: "etree \<Rightarrow> heap" where
  "built_store r = (case build_nodes std_iter_root (PRaw r) of Inl e \<Rightarrow> [] | Inr h \<Rightarrow> h)"

text \<open>
  The positions of the namespace nodes and of the attribute nodes of an element,
  after both lists have been asked for.
\<close>

definition lazy_positions :: "heap \<Rightarrow> nat \<Rightarrow> node_error + (pyobj list \<times> pyobj list)" where
  "lazy_positions h self =
     (case namespace_nodes h self of
        Inl e \<Rightarrow> Inl e
      | Inr (ns, h1) \<Rightarrow>
          (case attributes h1 self of
             Inl e \<Rightarrow> Inl e
           | Inr (ats, h2) \<Rightarrow> Inr (positions h2 ns, positions h2 ats)))"

section \<open>The dynamic context and two of its axis iterators (xpath_context.py)\<close>

text \<open>
  The focus of a context and the store of its node objects. (The variables, the
  clock and the registries take no part in the two iterators below.)
\<close>

record xcontext =
  store :: heap
  root :: pyobj
  item :: pyobj
  ctx_position :: int
  ctx_size :: int
  axis :: "string option"

text \<open>
  What the context module imports from the module etree, which is not among the
  sources, and what it asks of the caller's tree objects, as parameters:
  \<^verbatim>\<open>is_etree_element\<close>, \<^verbatim>\<open>is_document_node\<close>, \<^verbatim>\<open>etree_iter_root\<close>, and the
  parent that \<^verbatim>\<open>get_parent\<close> finds for an object that is not a node (through the
  parent map of the backing tree, or lxml's \<^verbatim>\<open>getparent\<close>; \<open>PNone\<close> when there is none).
\<close>

record etree_api =
  is_etree_element :: "pyobj \<Rightarrow> bool"
  is_document_node :: "pyobj \<Rightarrow> bool"
  etree_iter_root :: "pyobj \<Rightarrow> pyobj list"
  raw_parent :: "pyobj \<Rightarrow> pyobj"

text \<open>
  The instance for the standard library: an element of the caller's tree is an
  etree element, the caller's document is a document, the root has no siblings,
  and no parent is found.
\<close>

definition std_api :: etree_api where
  "std_api =
     \<lparr>is_etree_element = (\<lambda>v. case v of PRaw e \<Rightarrow> True | _ \<Rightarrow> False),
      is_document_node = (\<lambda>v. case v of PRawDoc e \<Rightarrow> True | _ \<Rightarrow> False),
      etree_iter_root = (\<lambda>v. [v]),
      raw_parent = (\<lambda>v. PNone)\<rparr>"

text \<open>The node object a value refers to, if it refers to one.\<close>

definition node_at :: "heap \<Rightarrow> pyobj \<Rightarrow> xnode option" where
  "node_at h v = (case v of PRef a \<Rightarrow> if a < length h then Some (h ! a) else None | _ \<Rightarrow> None)"

definition is_instance :: "heap \<Rightarrow> pyobj \<Rightarrow> node_kind \<Rightarrow> bool" where
  "is_instance h v k = (case node_at h v of None \<Rightarrow> False | Some n \<Rightarrow> kind n = k)"

text \<open>Truth of a value in a condition.\<close>

definition truthy :: "pyobj \<Rightarrow> bool" where
  "truthy v = (case v of PNone \<Rightarrow> False | PInt i \<Rightarrow> i \<noteq> 0 | PStr s \<Rightarrow> s \<noteq> []
               | PBool b \<Rightarrow> b | PList xs \<Rightarrow> xs \<noteq> [] | _ \<Rightarrow> True)"

text \<open>\<^verbatim>\<open>callable(elem.tag)\<close> on an element of the caller's tree.\<close>

definition callable_tag :: "etree \<Rightarrow> bool" where
  "callable_tag e = (case etag e of Tag t \<Rightarrow> False | _ \<Rightarrow> True)"

text \<open>\<^verbatim>\<open>getroot()\<close> of the caller's document or of a document node.\<close>

definition getroot :: "heap \<Rightarrow> pyobj \<Rightarrow> node_error + pyobj" where
  "getroot h v =
     (case v of
        PRawDoc r \<Rightarrow> Inr (PRaw r)
      | _ \<Rightarrow>
          if is_instance h v DocumentNode then
            (case filter (\<lambda>a. is_instance h (PRef a) ElementNode)
                    (children (the (node_at h v))) of
               [] \<Rightarrow> Inl RuntimeError
             | a # _ \<Rightarrow> Inr (PRef a))
          else Inl (NodeAttributeError ''getroot''))"

text \<open>
  A drained iterator: the items it yielded, in order, and the context it leaves;
  or the exception that ended it.
\<close>

type_synonym drained = "node_error + (pyobj list \<times> xcontext)"

definition restore :: "pyobj \<times> string option \<Rightarrow> xcontext \<Rightarrow> xcontext" where
  "restore status c = c\<lparr>item := fst status, axis := snd status\<rparr>"

text \<open>
  The children of an element of the caller's tree, in the branch of
  \<^verbatim>\<open>iter_children_or_self\<close> for such an item: the text, then each child. A child
  with a tail makes the call \<^verbatim>\<open>TextNode(self, child.tail, child, True)\<close>, one
  positional argument too many for \<^verbatim>\<open>TextNode.__init__\<close>, which raises; the text
  node is made by \<^verbatim>\<open>TextNode(self, elem.text, elem)\<close>.
\<close>

definition raw_children :: "xcontext \<Rightarrow> etree \<Rightarrow> node_error + (pyobj list \<times> xcontext)" where
  "raw_children c e =
     (let (ys, c1) =
            (case etext e of
               None \<Rightarrow> ([], c)
             | Some t \<Rightarrow>
                 (let (a, h1) = alloc (store c) (TextNode_init PContext (PStr t) (PRaw e))
                  in ([PRef a], c\<lparr>store := h1, item := PRef a\<rparr>)))
      in case kids e of
           [] \<Rightarrow> Inr (ys, c1)
         | k # ks \<Rightarrow>
             if list_all (\<lambda>x. etail x = None) (k # ks)
             then Inr (ys @ map PRaw (k # ks), c1\<lparr>item := PRaw (last (k # ks))\<rparr>)
             else Inl (TypeError ''takes from 2 to 4 positional arguments but 5 were given''))"

text \<open>\<^verbatim>\<open>for self.item in xs: yield self.item\<close>.\<close>

definition yield_each :: "pyobj list \<Rightarrow> xcontext \<Rightarrow> pyobj list \<times> xcontext" where
  "yield_each xs c = (xs, if xs = [] then c else c\<lparr>item := last xs\<rparr>)"

text \<open>
  \<^verbatim>\<open>iter_children_or_self\<close>, from the test \<^verbatim>\<open>if self.item is None\<close> on: \<open>status\<close>
  is the saved pair. The branch for a comment or a processing instruction of the
  caller's tree returns at once, without the last statement that restores the pair.
\<close>

definition children_of_item :: "etree_api \<Rightarrow> pyobj \<times> string option \<Rightarrow> xcontext \<Rightarrow> drained" where
  "children_of_item api status c =
     (if item c = PNone then
        (if is_instance (store c) (root c) DocumentNode then
           (let (ys, c1) = yield_each (map PRef (children (the (node_at (store c) (root c))))) c
            in Inr (ys, restore status c1))
         else
           (case (if is_document_node api (root c) then getroot (store c) (root c)
                  else Inr (root c)) of
              Inl e \<Rightarrow> Inl e
            | Inr r \<Rightarrow>
                (let (ys, c1) = yield_each (etree_iter_root api r) c
                 in Inr (ys, restore status c1))))
      else if is_etree_element api (item c) then
        (case item c of
           PRaw e \<Rightarrow>
             if callable_tag e then Inr ([], c)
             else (case raw_children c e of
                     Inl err \<Rightarrow> Inl err
                   | Inr (ys, c1) \<Rightarrow> Inr (ys, restore status c1))
         | _ \<Rightarrow> Inl (NodeAttributeError ''tag''))
      else if is_instance (store c) (root c) DocumentNode then
        (let (ys, c1) = yield_each (map PRef (children (the (node_at (store c) (root c))))) c
         in Inr (ys, restore status c1))
      else if is_document_node api (item c) then
        (case getroot (store c) (item c) of
           Inl e \<Rightarrow> Inl e
         | Inr r \<Rightarrow>
             (let (ys, c1) = yield_each (etree_iter_root api r) c
              in Inr (ys, restore status c1)))
      else Inr ([], restore status c))"

text \<open>
  \<^verbatim>\<open>iter_children_or_self\<close>: with an axis already set the item itself is yielded;
  otherwise the pair (item, axis) is saved and the axis is set to \<^verbatim>\<open>child\<close>.
\<close>

definition iter_children_or_self :: "etree_api \<Rightarrow> xcontext \<Rightarrow> drained" where
  "iter_children_or_self api c =
     (if axis c \<noteq> None then Inr ([item c], c)
      else
        (let status = (item c, axis c);
             c1 = c\<lparr>axis := Some ''child''\<rparr>
         in if is_instance (store c1) (item c1) ElementNode then
              (case node_context (the (node_at (store c1) (item c1))) of
                 None \<Rightarrow> Inl (NodeAttributeError ''context'')
               | Some cx \<Rightarrow>
                   if cx = PNone then
                     children_of_item api status
                       (c1\<lparr>item := elem (the (node_at (store c1) (item c1)))\<rparr>)
                   else
                     (let (ys, c2) = yield_each
                            (map PRef (children (the (node_at (store c1) (item c1))))) c1
                      in Inr (ys, restore status c2)))
            else children_of_item api status c1))"

text \<open>The focus of a context: the four fields an axis iterator may change.\<close>

definition focus :: "xcontext \<Rightarrow> pyobj \<times> int \<times> int \<times> string option" where
  "focus c = (item c, ctx_position c, ctx_size c, axis c)"

text \<open>
  A context on the tree \<^verbatim>\<open><A><!--c--></A>\<close> whose item is the comment element of the
  caller's tree, with no axis.
\<close>

definition comment_elem :: etree where
  "comment_elem = Element 1 Comment (Some ''c'') None [] None []"

definition comment_context :: xcontext where
  "comment_context =
     \<lparr>store = built_store (Element 0 (Tag ''A'') None None [] None [comment_elem]),
      root = PRef 0, item = PRaw comment_elem, ctx_position = 1, ctx_size = 1, axis = None\<rparr>"

subsection \<open>The ancestor axis\<close>

text \<open>
  \<^verbatim>\<open>get_parent\<close>: the parent slot of a node object; for any other object, what the
  parent map of the backing tree or lxml's \<^verbatim>\<open>getparent\<close> gives (the parameter).
\<close>

definition get_parent :: "etree_api \<Rightarrow> xcontext \<Rightarrow> pyobj \<Rightarrow> pyobj" where
  "get_parent api c v = (case node_at (store c) v of Some n \<Rightarrow> parent n | None \<Rightarrow> raw_parent api v)"

text \<open>
  The loop \<^verbatim>\<open>while parent is not None\<close> of \<^verbatim>\<open>iter_ancestors\<close>, which appends each
  parent to the list. It runs for ever on a cycle of parents, so it is given fuel;
  \<open>None\<close> is an exhausted fuel.
\<close>

fun ancestors_loop ::
  "nat \<Rightarrow> etree_api \<Rightarrow> xcontext \<Rightarrow> pyobj \<Rightarrow> pyobj list \<Rightarrow> pyobj list option" where
  "ancestors_loop 0 api c par ancestors = None"
| "ancestors_loop (Suc n) api c par ancestors =
     (if par = PNone then Some ancestors
      else ancestors_loop n api c (get_parent api c par) (ancestors @ [par]))"

text \<open>
  The first part of \<^verbatim>\<open>iter_ancestors\<close>: the parent of the item, by the class of the
  item. \<open>Inr None\<close> is a plain \<^verbatim>\<open>return\<close>, before anything is saved or changed. A
  text node with a parent reads \<^verbatim>\<open>parent.tag\<close> and then calls \<^verbatim>\<open>is_tail()\<close>, which
  the class \<^verbatim>\<open>TextNode\<close> does not have.
\<close>

definition first_parent :: "etree_api \<Rightarrow> xcontext \<Rightarrow> node_error + pyobj option" where
  "first_parent api c =
     (case node_at (store c) (item c) of
        Some n \<Rightarrow>
          if kind n = ElementNode then
            (case node_context n of
               None \<Rightarrow> Inl (NodeAttributeError ''context'')
             | Some cx \<Rightarrow>
                 if truthy cx then Inr (Some (parent n))
                 else Inr (Some (get_parent api c (elem n))))
          else if kind n = TextNode then
            (case parent n of
               PNone \<Rightarrow> Inr (Some PNone)
             | PRaw e \<Rightarrow>
                 if callable_tag e then Inr (Some (get_parent api c (PRaw e)))
                 else Inl (NodeAttributeError ''is_tail'')
             | _ \<Rightarrow> Inl (NodeAttributeError ''tag''))
          else Inr (Some (parent n))
      | None \<Rightarrow>
          (case item c of
             PRaw e \<Rightarrow> Inr (Some (get_parent api c (PRaw e)))
           | v \<Rightarrow> if v \<noteq> PNone \<and> is_document_node api v then Inr (Some PNone) else Inr None))"

text \<open>
  \<^verbatim>\<open>iter_ancestors(axis)\<close>: the pair (item, axis) is saved, the axis is set, the
  parents are collected from the nearest on, the item itself first for
  \<^verbatim>\<open>ancestor-or-self\<close>; then \<^verbatim>\<open>for self.item in reversed(ancestors)\<close> yields them
  from the last collected to the first, and the pair is restored.
\<close>

definition iter_ancestors ::
  "nat \<Rightarrow> etree_api \<Rightarrow> xcontext \<Rightarrow> string option \<Rightarrow> drained option" where
  "iter_ancestors fuel api c ax =
     (case first_parent api c of
        Inl e \<Rightarrow> Some (Inl e)
      | Inr None \<Rightarrow> Some (Inr ([], c))
      | Inr (Some par) \<Rightarrow>
          (let status = (item c, axis c);
               c1 = c\<lparr>axis := (case ax of None \<Rightarrow> Some ''ancestor''
                                 | Some a \<Rightarrow> if a = [] then Some ''ancestor'' else Some a)\<rparr>
           in case ancestors_loop fuel api c1 par
                     (if ax = Some ''ancestor-or-self'' then [item c1] else []) of
                None \<Rightarrow> None
              | Some ancestors \<Rightarrow>
                  (let (ys, c2) = yield_each (rev ancestors) c1
                   in Some (Inr (ys, restore status c2)))))"

text \<open>
  In the words of the data model: \<open>ps\<close> is the list of the ancestors of a node whose
  parent is \<open>par\<close>, the nearest first.
\<close>

fun nearest_first :: "etree_api \<Rightarrow> xcontext \<Rightarrow> pyobj \<Rightarrow> pyobj list \<Rightarrow> bool" where
  "nearest_first api c par [] = (par = PNone)"
| "nearest_first api c par (x # xs) =
     (par \<noteq> PNone \<and> x = par \<and> nearest_first api c (get_parent api c par) xs)"

text \<open>
  Node objects made by the constructors as their signatures ask: an element \<^verbatim>\<open>A\<close>,
  its child element \<^verbatim>\<open>B\<close>, and an attribute node of \<^verbatim>\<open>B\<close>.
\<close>

definition attr_heap :: heap where
  "attr_heap =
     [ElementNode_init (PRaw (Element 0 (Tag ''A'') None None [] None
          [Element 1 (Tag ''B'') None None [(''a'', ''1'')] None []])) PNone (PInt 1) None,
      ElementNode_init (PRaw (Element 1 (Tag ''B'') None None [(''a'', ''1'')] None []))
          (PRef 0) (PInt 2) None,
      AttributeNode_init (PStr ''a'') (PStr ''1'') (PRef 1) (PInt 4)]"

definition attr_context :: xcontext where
  "attr_context =
     \<lparr>store = attr_heap, root = PRef 0, item = PRef 2, ctx_position = 1, ctx_size = 1,
      axis = None\<rparr>"




section \<open>The evaluation protocol of a token (xpath_token.py)\<close>

text \<open>
  \<^verbatim>\<open>evaluate\<close> returns a value and \<^verbatim>\<open>select\<close> is a generator; both are handed the
  context object (or \<^verbatim>\<open>None\<close>) and may change it. A call of \<^verbatim>\<open>evaluate\<close> is
  modelled by its value and the context it leaves; a drained \<^verbatim>\<open>select\<close> by its
  yields, each with the context as it is at that yield, and the context it leaves.
\<close>

type_synonym evaluated = "node_error + (pyobj \<times> xcontext option)"

type_synonym selected = "node_error + ((pyobj \<times> xcontext option) list \<times> xcontext option)"

text \<open>
  A token class either keeps the method of \<^verbatim>\<open>XPathToken\<close> or overrides it with a
  method of its own, which is any function of the context.
\<close>

datatype 'a py_method = Default | Override 'a

record token_methods =
  evaluate_method :: "(xcontext option \<Rightarrow> evaluated) py_method"
  select_method :: "(xcontext option \<Rightarrow> selected) py_method"

text \<open>The list comprehension of the default \<^verbatim>\<open>evaluate\<close> over a drained \<^verbatim>\<open>select\<close>.\<close>

definition materialize :: "selected \<Rightarrow> evaluated" where
  "materialize r = (case r of Inl e \<Rightarrow> Inl e | Inr (evs, c) \<Rightarrow> Inr (PList (map fst evs), c))"

text \<open>
  The body of the default \<^verbatim>\<open>select\<close> after its call of \<^verbatim>\<open>evaluate\<close>: nothing for
  \<^verbatim>\<open>None\<close>, the members of a list, and for any other value the value itself, after
  it has been stored as the item of a context that is not \<^verbatim>\<open>None\<close>.
\<close>

definition yield_result :: "evaluated \<Rightarrow> selected" where
  "yield_result r =
     (case r of
        Inl e \<Rightarrow> Inl e
      | Inr (v, c) \<Rightarrow>
          (case v of
             PNone \<Rightarrow> Inr ([], c)
           | PList xs \<Rightarrow> Inr (map (\<lambda>x. (x, c)) xs, c)
           | _ \<Rightarrow>
               (let c1 = (case c of None \<Rightarrow> None | Some cx \<Rightarrow> Some (cx\<lparr>item := v\<rparr>))
                in Inr ([(v, c1)], c1))))"

text \<open>
  \<^verbatim>\<open>token.evaluate(context)\<close> and a drained \<^verbatim>\<open>token.select(context)\<close>, by the class
  of the token. Each default calls the other method of the same token, so a class
  that overrides neither recurses without end: the calls are given fuel, and
  \<open>None\<close> is an exhausted fuel.
\<close>

fun evaluate :: "nat \<Rightarrow> token_methods \<Rightarrow> xcontext option \<Rightarrow> evaluated option"
  and select :: "nat \<Rightarrow> token_methods \<Rightarrow> xcontext option \<Rightarrow> selected option" where
  "evaluate 0 tm c = None"
| "evaluate (Suc n) tm c =
     (case evaluate_method tm of
        Override f \<Rightarrow> Some (f c)
      | Default \<Rightarrow> map_option materialize (select n tm c))"
| "select 0 tm c = None"
| "select (Suc n) tm c =
     (case select_method tm of
        Override g \<Rightarrow> Some (g c)
      | Default \<Rightarrow> map_option yield_result (evaluate n tm c))"

text \<open>A token class whose \<^verbatim>\<open>evaluate\<close> returns the integer 5 and leaves the context.\<close>

definition five_token :: token_methods where
  "five_token = \<lparr>evaluate_method = Override (\<lambda>c. Inr (PInt 5, c)), select_method = Default\<rparr>"

text \<open>A token class whose \<^verbatim>\<open>select\<close> yields the integers 1 and 2.\<close>

definition pair_token :: token_methods where
  "pair_token =
     \<lparr>evaluate_method = Default,
      select_method = Override (\<lambda>c. Inr ([(PInt 1, c), (PInt 2, c)], c))\<rparr>"

section \<open>Properties\<close>

subsection \<open>Unfolding the definitions on concrete inputs\<close>

lemmas tok_defs = create_tokenizer_def strip_def is_space_def symbol_escape_def isalpha_def
  is_alpha_def finditer_def match_at_def match_literal_def match_quoted_def match_number_def
  match_mantissa_def count_digits_def is_digit_def match_operator_def match_name_def
  match_braces_def count_name_def name_char_def match_spaces_def word_opt_def first_char_def
  is_word_def match_fraction_def match_exponent_def

lemmas reg_defs = end_reg_def infix_reg_def infixr_reg_def literal_def prefix_def register_def
  lookup_def new_class_def update_class_def no_kwargs_def empty_parser_def special_symbols_def

lemmas parse_defs = run_parser_def Parser_init_def parse_def parse_body_def top_expression_def advance_def
  is_end_def expected_def unexpected_def wrong_symbol_def fetch.simps literal_token_def
  new_token_def set_operands_def finally_clause_def int_of_literal_def digit_val_def
  is_quote_def strip_quotes_def


subsection \<open>The scenarios of the parser\<close>

lemma arith_parser_tokenizer:
  "arith_parser =
     Inr \<lparr>symbol_table =
            [\<lparr>symbol = ''(integer)'', lbp = 0, rbp = 0, nud = NudLiteral, led = LedDefault\<rparr>,
             \<lparr>symbol = ''+'', lbp = 10, rbp = 10, nud = NudDefault, led = LedInfix 10\<rparr>,
             \<lparr>symbol = ''*'', lbp = 20, rbp = 20, nud = NudDefault, led = LedInfix 20\<rparr>,
             \<lparr>symbol = ''(end)'', lbp = 0, rbp = 0, nud = NudDefault, led = LedDefault\<rparr>],
          tokenizer = Some \<lparr>multi = [], singles = ''+*''\<rparr>\<rparr>"
  by code_simp

lemma arith_parser2_tree:
  "map_option (map_sum id (tree fr)) (run_parser arith_parser2 ''1 + 2 * 3'')
     = Some (Inr ''(+ (1) (* (2) (3)))'')"
  by code_simp

text \<open>
  C3. With \<^verbatim>\<open>+\<close> registered by \<open>infix_reg\<close> at binding power 10 and \<^verbatim>\<open>*\<close> at 20,
  parsing \<^verbatim>\<open>1 + 2 * 3\<close> should give the tree \<^verbatim>\<open>(+ (1) (* (2) (3)))\<close>. On the parser
  that registers exactly these, the compiled pattern has an empty operator
  alternative, the match after the first literal is an empty operator, and
  \<^verbatim>\<open>parse\<close> raises a syntax error for the unknown operator \<^verbatim>\<open>''\<close>.
\<close>

theorem C3_arith_parser_raises:
  "run_parser arith_parser ''1 + 2 * 3'' = Some (Inl (ElementPathSyntaxError (UnknownOperator [])))"
  by code_simp

lemma assoc_parser2_trees:
  assumes "5 < bp"
  shows "map_option (map_sum id (tree fr)) (run_parser (assoc_parser2 bp) ''a + b + c'')
           = Some (Inr ''(+ (+ (a) (b)) (c))'')"
    and "map_option (map_sum id (tree fr)) (run_parser (assoc_parser2 bp) ''a ^ b ^ c'')
           = Some (Inr ''(^ (a) (^ (b) (c)))'')"
  using assms
  by (simp_all add: assoc_parser2_def tok_defs reg_defs parse_defs str_value_def numeral_eq_Suc)

text \<open>
  C4. With \<^verbatim>\<open>+\<close> registered by \<open>infix_reg\<close> and \<^verbatim>\<open>^\<close> by \<open>infixr_reg\<close> at the same
  binding power, \<^verbatim>\<open>a + b + c\<close> should parse to \<^verbatim>\<open>(+ (+ (a) (b)) (c))\<close> and
  \<^verbatim>\<open>a ^ b ^ c\<close> to \<^verbatim>\<open>(^ (a) (^ (b) (c)))\<close>. On the parser that registers exactly
  these, at any binding power, the first match of either source is an empty
  operator and \<^verbatim>\<open>parse\<close> raises a syntax error for the unknown operator \<^verbatim>\<open>''\<close>.
\<close>

theorem C4_assoc_parser_raises:
  "run_parser (assoc_parser bp) ''a + b + c''
     = Some (Inl (ElementPathSyntaxError (UnknownOperator [])))
   \<and> run_parser (assoc_parser bp) ''a ^ b ^ c''
     = Some (Inl (ElementPathSyntaxError (UnknownOperator [])))"
  by (simp add: assoc_parser_def tok_defs reg_defs parse_defs)

subsection \<open>The tokenizer on any set of symbols\<close>

lemma set_strip: "set (strip s) \<subseteq> set s"
proof -
  have "set (strip s) \<subseteq> set (dropWhile is_space s)"
    unfolding strip_def using set_dropWhileD [of _ is_space "rev (dropWhile is_space s)"] by auto
  also have "\<dots> \<subseteq> set s" using set_dropWhileD [of _ is_space s] by auto
  finally show ?thesis .
qed

lemma sorted_take_filter:
  "sorted (map f xs) \<Longrightarrow>
     take (length (filter (\<lambda>x. f x < (c::int)) xs)) xs = filter (\<lambda>x. f x < c) xs
     \<and> drop (length (filter (\<lambda>x. f x < c) xs)) xs = filter (\<lambda>x. \<not> f x < c) xs"
proof (induction xs)
  case Nil
  show ?case by simp
next
  case (Cons x xs)
  show ?case
  proof (cases "f x < c")
    case True
    with Cons show ?thesis by simp
  next
    case False
    with Cons.prems have "\<forall>y \<in> set xs. \<not> f y < c" by auto
    then have "filter (\<lambda>x. f x < c) xs = []" "filter (\<lambda>x. \<not> f x < c) xs = xs"
      by (auto simp: filter_empty_conv filter_id_conv)
    with False show ?thesis by simp
  qed
qed


lemma create_tokenizer_sets:
  assumes "create_tokenizer symbols = Inr tk"
  shows "set (multi tk) = symbol_escape ` {s \<in> set (stripped symbols). 1 < length s}"
    and "set (singles tk) = {c. [c] \<in> set (stripped symbols)}"
proof -
  define syms where "syms = sort_key (\<lambda>x. - int (length x)) (stripped symbols)"
  define fence where "fence = length (filter (\<lambda>i. 1 < length i) syms)"
  have srt: "sorted (map (\<lambda>x. - int (length x)) syms)"
    by (simp add: syms_def)
  have eq: "(\<lambda>i::string. 1 < length i) = (\<lambda>x. - int (length x) < - 1)" by auto
  from sorted_take_filter [OF srt, of "-1"]
  have tk: "take fence syms = filter (\<lambda>i. 1 < length i) syms"
    and dr: "drop fence syms = filter (\<lambda>i. \<not> 1 < length i) syms"
    unfolding fence_def eq by auto
  from assms have m: "multi tk = map symbol_escape (take fence syms)"
    and s: "singles tk = concat (drop fence syms)"
    by (auto simp: create_tokenizer_def syms_def fence_def stripped_def Let_def split: if_splits)
  have setsyms: "set syms = set (stripped symbols)" by (simp add: syms_def)
  show "set (multi tk) = symbol_escape ` {s \<in> set (stripped symbols). 1 < length s}"
    by (simp add: m tk setsyms)
  have ne: "\<forall>x \<in> set (stripped symbols). x \<noteq> []" by (simp add: stripped_def)
  show "set (singles tk) = {c. [c] \<in> set (stripped symbols)}"
  proof (rule set_eqI)
    fix c
    show "c \<in> set (singles tk) \<longleftrightarrow> c \<in> {c. [c] \<in> set (stripped symbols)}"
    proof
      assume "c \<in> set (singles tk)"
      then obtain x where x: "x \<in> set (stripped symbols)" "\<not> 1 < length x" "c \<in> set x"
        by (auto simp: s dr setsyms)
      with ne have "length x = 1" by (cases x) auto
      with x(3) have "x = [c]" by (cases x) auto
      with x(1) show "c \<in> {c. [c] \<in> set (stripped symbols)}" by simp
    next
      assume "c \<in> {c. [c] \<in> set (stripped symbols)}"
      then show "c \<in> set (singles tk)"
        by (auto simp: s dr setsyms intro!: bexI [of _ "[c]"])
    qed
  qed
qed

lemma create_tokenizer_ok:
  assumes "[c] \<in> set (stripped symbols)"
  shows "\<exists>tk. create_tokenizer symbols = Inr tk"
proof -
  define syms where "syms = sort_key (\<lambda>x. - int (length x)) (stripped symbols)"
  define fence where "fence = length (filter (\<lambda>i. 1 < length i) syms)"
  have srt: "sorted (map (\<lambda>x. - int (length x)) syms)"
    by (simp add: syms_def)
  have eq: "(\<lambda>i::string. 1 < length i) = (\<lambda>x. - int (length x) < - 1)" by auto
  from sorted_take_filter [OF srt, of "-1"]
  have dr: "drop fence syms = filter (\<lambda>i. \<not> 1 < length i) syms"
    unfolding fence_def eq by auto
  have setsyms: "set syms = set (stripped symbols)" by (simp add: syms_def)
  from assms have "[c] \<in> set (drop fence syms)" by (simp add: dr setsyms)
  then have "drop fence syms \<noteq> []" by auto
  then show ?thesis
    by (simp add: create_tokenizer_def syms_def fence_def stripped_def Let_def)
qed


lemma match_items_lit_in:
  "match_items ps prev inp = Some n \<Longrightarrow> Lit c \<in> set ps \<Longrightarrow> c \<in> set inp"
proof (induction ps prev inp arbitrary: n rule: match_items.induct)
  case (6 ps prev x xs)
  then show ?case by (auto split: if_splits option.splits)
qed (auto split: if_splits)

lemma match_items_lits_prefix:
  "match_items (map Lit s @ ps) prev inp = Some n \<Longrightarrow> take (length s) inp = s"
proof (induction s arbitrary: prev inp n)
  case Nil
  show ?case by simp
next
  case (Cons c s)
  then show ?case by (cases inp) (auto split: if_splits)
qed

lemma symbol_escape_prefix:
  assumes m: "match_items (symbol_escape s) prev inp = Some n"
    and np: "CHR ''('' \<notin> set inp" and nc: "CHR '':'' \<notin> set inp"
  shows "take (length s) inp = s"
proof -
  consider (paren) "s \<noteq> [] \<and> last s = CHR ''(''"
    | (colons) "\<not> (s \<noteq> [] \<and> last s = CHR ''('')" "2 \<le> length s \<and> drop (length s - 2) s = ''::''"
    | (alpha) "\<not> (s \<noteq> [] \<and> last s = CHR ''('')"
        "\<not> (2 \<le> length s \<and> drop (length s - 2) s = ''::'')" "isalpha s"
    | (plain) "\<not> (s \<noteq> [] \<and> last s = CHR ''('')"
        "\<not> (2 \<le> length s \<and> drop (length s - 2) s = ''::'')" "\<not> isalpha s"
    by blast
  then show ?thesis
  proof cases
    case paren
    with m have "match_items (map Lit (butlast s) @ [Spaces, Lit CHR ''(''] ) prev inp = Some n"
      by (simp add: symbol_escape_def)
    from match_items_lit_in [OF this, of "CHR ''(''"] np show ?thesis by simp
  next
    case colons
    with m have "match_items (map Lit (take (length s - 2) s) @ [Spaces, Lit CHR '':'', Lit CHR '':''])
                   prev inp = Some n"
      by (simp add: symbol_escape_def)
    from match_items_lit_in [OF this, of "CHR '':''"] nc show ?thesis by simp
  next
    case alpha
    with m have "match_items (WordB # (map Lit s @ [WordB])) prev inp = Some n"
      by (simp add: symbol_escape_def)
    then have "match_items (map Lit s @ [WordB]) prev inp = Some n"
      by (simp split: if_splits)
    from match_items_lits_prefix [OF this] show ?thesis .
  next
    case plain
    with m have "match_items (map Lit s @ []) prev inp = Some n"
      by (simp add: symbol_escape_def)
    from match_items_lits_prefix [OF this] show ?thesis .
  qed
qed

lemma match_multi_none:
  "(\<And>p. p \<in> set ps \<Longrightarrow> match_items p prev inp = None) \<Longrightarrow> match_multi ps prev inp = None"
  by (induction ps) auto

lemma match_multi_some:
  "\<forall>p \<in> set ps. match_items p prev inp = None \<or> match_items p prev inp = Some n
   \<Longrightarrow> q \<in> set ps \<Longrightarrow> match_items q prev inp = Some n \<Longrightarrow> match_multi ps prev inp = Some n"
proof (induction ps)
  case Nil
  then show ?case by simp
next
  case (Cons a ps)
  show ?case
  proof (cases "match_items a prev inp")
    case None
    with Cons show ?thesis by auto
  next
    case (Some k)
    with Cons.prems(1) have "k = n" by auto
    with Some show ?thesis by simp
  qed
qed

text \<open>No symbol of two characters or more without a space starts a rest of the source
  \<^verbatim>\<open>a <= b\<close> at a match position, but \<^verbatim>\<open><=\<close> itself.\<close>

lemma no_prefix_rests:
  assumes "2 \<le> length s" "CHR '' '' \<notin> set s"
  shows "take (length s) ''a <= b'' \<noteq> s" "take (length s) '' <= b'' \<noteq> s"
    "take (length s) '' b'' \<noteq> s" "take (length s) ''b'' \<noteq> s"
    "take (length s) ''<= b'' = s \<Longrightarrow> s = ''<=''"
proof -
  from assms(1) obtain c1 c2 r where s: "s = c1 # c2 # r"
    by (cases s; cases "tl s") auto
  from assms(2) s show "take (length s) ''a <= b'' \<noteq> s" by auto
  from assms(2) s show "take (length s) '' <= b'' \<noteq> s" by auto
  from assms(2) s show "take (length s) '' b'' \<noteq> s" by auto
  from assms(2) s show "take (length s) ''b'' \<noteq> s" by auto
  show "s = ''<=''" if "take (length s) ''<= b'' = s"
  proof (cases r)
    case Nil
    with that s show ?thesis by auto
  next
    case (Cons c3 r')
    with that s assms(2) show ?thesis by auto
  qed
qed


lemma strip_le: "strip ''<='' = ''<=''" and strip_lt: "strip ''<'' = ''<''"
  by (simp_all add: strip_def is_space_def)

lemma tokenize_le:
  assumes le: "''<='' \<in> set symbols" and lt: "''<'' \<in> set symbols"
    and nsp: "\<forall>s \<in> set symbols. CHR '' '' \<notin> set s"
  shows "\<exists>tk. create_tokenizer symbols = Inr tk \<and>
           finditer tk ''a <= b'' =
             [\<lparr>span_start = 0, mtext = ''a'',
                mgroup = (if ''a'' \<in> set (stripped symbols) then GOperator else GName)\<rparr>,
              \<lparr>span_start = 1, mtext = '' '', mgroup = GNone\<rparr>,
              \<lparr>span_start = 2, mtext = ''<='', mgroup = GOperator\<rparr>,
              \<lparr>span_start = 4, mtext = '' '', mgroup = GNone\<rparr>,
              \<lparr>span_start = 5, mtext = ''b'',
                mgroup = (if ''b'' \<in> set (stripped symbols) then GOperator else GName)\<rparr>]"
proof -
  from le have le': "''<='' \<in> set (stripped symbols)"
    by (auto simp: stripped_def intro!: image_eqI [of _ strip "''<=''"] simp: strip_le)
  from lt have lt': "''<'' \<in> set (stripped symbols)"
    by (auto simp: stripped_def intro!: image_eqI [of _ strip "''<''"] simp: strip_lt)
  have nsp': "CHR '' '' \<notin> set s" if "s \<in> set (stripped symbols)" for s
    using that nsp set_strip by (fastforce simp: stripped_def)
  from create_tokenizer_ok [OF lt'] obtain tk where tk: "create_tokenizer symbols = Inr tk"
    by blast
  note sets = create_tokenizer_sets [OF tk]
  have single: "c \<in> set (singles tk) \<longleftrightarrow> [c] \<in> set (stripped symbols)" for c
    by (simp add: sets(2))
  have nospace: "CHR '' '' \<notin> set (singles tk)"
    using nsp' [of "'' ''"] by (auto simp: single)
  have pat: "\<exists>s. p = symbol_escape s \<and> 2 \<le> length s \<and> CHR '' '' \<notin> set s"
    if "p \<in> set (multi tk)" for p
    using that nsp' by (auto simp: sets(1))
  have lepat: "symbol_escape ''<='' \<in> set (multi tk)"
    using le' by (auto simp: sets(1))
  then have mne: "multi tk \<noteq> []" by auto
  have none: "match_items p prev inp = None"
    if "p \<in> set (multi tk)" "inp \<in> {''a <= b'', '' <= b'', '' b'', ''b''}" for p prev inp
  proof (rule ccontr)
    assume "match_items p prev inp \<noteq> None"
    then obtain n where n: "match_items p prev inp = Some n" by auto
    from pat [OF that(1)] obtain s where
      s: "p = symbol_escape s" "2 \<le> length s" "CHR '' '' \<notin> set s" by blast
    from that(2) have "CHR ''('' \<notin> set inp" "CHR '':'' \<notin> set inp" by auto
    from symbol_escape_prefix [OF n [unfolded s(1)] this] have "take (length s) inp = s" .
    with no_prefix_rests(1-4) [OF s(2,3)] that(2) show False by auto
  qed
  have le_val: "match_items (symbol_escape ''<='') prev ''<= b'' = Some 2" for prev
    by (simp add: symbol_escape_def isalpha_def is_alpha_def)
  have some: "match_items p prev ''<= b'' = None \<or> match_items p prev ''<= b'' = Some 2"
    if "p \<in> set (multi tk)" for p prev
  proof (cases "match_items p prev ''<= b''")
    case None
    then show ?thesis by simp
  next
    case (Some n)
    from pat [OF that] obtain s where
      s: "p = symbol_escape s" "2 \<le> length s" "CHR '' '' \<notin> set s" by blast
    have "CHR ''('' \<notin> set ''<= b''" "CHR '':'' \<notin> set ''<= b''" by auto
    from symbol_escape_prefix [OF Some [unfolded s(1)] this]
    have "take (length s) ''<= b'' = s" .
    from no_prefix_rests(5) [OF s(2,3) this] have "s = ''<=''" .
    with s(1) le_val show ?thesis by simp
  qed
  have mm_none: "match_multi (multi tk) prev inp = None"
    if "inp \<in> {''a <= b'', '' <= b'', '' b'', ''b''}" for prev inp
    using none [OF _ that] by (rule match_multi_none)
  have mm_le: "match_multi (multi tk) prev ''<= b'' = Some 2" for prev
    using some lepat le_val by (intro match_multi_some [of _ _ _ _ "symbol_escape ''<=''"]) auto
  have lit: "match_literal inp = None"
    if "inp \<in> {''a <= b'', '' <= b'', ''<= b'', '' b'', ''b''}" for inp
    using that
    by (auto simp: match_literal_def match_quoted_def match_number_def match_mantissa_def
                   count_digits_def is_digit_def)
  have m0: "match_at tk None ''a <= b''
              = Some (if ''a'' \<in> set (stripped symbols) then GOperator else GName, 1)"
    using mne lit [of "''a <= b''"] mm_none [of "''a <= b''" None]
    by (simp add: match_at_def match_operator_def single match_name_def match_braces_def
                  count_name_def name_char_def is_space_def)
  have m1: "match_at tk (Some CHR ''a'') '' <= b'' = Some (GNone, 1)"
    using mne lit [of "'' <= b''"] mm_none [of "'' <= b''" "Some CHR ''a''"] nospace
    by (simp add: match_at_def match_operator_def match_name_def match_braces_def
                  count_name_def name_char_def is_space_def match_spaces_def)
  have m2: "match_at tk (Some CHR '' '') ''<= b'' = Some (GOperator, 2)"
    using mne lit [of "''<= b''"] mm_le [of "Some CHR '' ''"]
    by (simp add: match_at_def match_operator_def)
  have m4: "match_at tk (Some CHR ''='') '' b'' = Some (GNone, 1)"
    using mne lit [of "'' b''"] mm_none [of "'' b''" "Some CHR ''=''"] nospace
    by (simp add: match_at_def match_operator_def match_name_def match_braces_def
                  count_name_def name_char_def is_space_def match_spaces_def)
  have m5: "match_at tk (Some CHR '' '') ''b''
              = Some (if ''b'' \<in> set (stripped symbols) then GOperator else GName, 1)"
    using mne lit [of "''b''"] mm_none [of "''b''" "Some CHR '' ''"]
    by (simp add: match_at_def match_operator_def single match_name_def match_braces_def
                  count_name_def name_char_def is_space_def)
  have none_empty: "match_items p prev [] = None" if "p \<in> set (multi tk)" for p prev
  proof (rule ccontr)
    assume "match_items p prev [] \<noteq> None"
    then obtain n where n: "match_items p prev [] = Some n" by auto
    from pat [OF that] obtain s where
      s: "p = symbol_escape s" "2 \<le> length s" "CHR '' '' \<notin> set s" by blast
    from symbol_escape_prefix [OF n [unfolded s(1)]] have "take (length s) [] = s" by simp
    with s(2) show False by auto
  qed
  have mend: "match_at tk (Some CHR ''b'') [] = None"
    using mne
    by (simp add: match_at_def match_operator_def match_name_def match_braces_def
                  count_name_def match_spaces_def match_literal_def match_quoted_def
                  match_number_def match_mantissa_def count_digits_def
                  match_multi_none [OF none_empty])
  show ?thesis
    using tk by (simp add: finditer_def m0 m1 m2 m4 m5 mend)
qed

text \<open>
  C5, as amended. For every set of symbols that holds \<^verbatim>\<open><\<close> and \<^verbatim>\<open><=\<close> and in which
  no symbol holds a space character, the tokenizer compiles and cuts \<^verbatim>\<open>a <= b\<close>
  into three tokens: \<^verbatim>\<open>a\<close>, the operator \<^verbatim>\<open><=\<close> of two characters, and \<^verbatim>\<open>b\<close>
  (each of \<^verbatim>\<open>a\<close> and \<^verbatim>\<open>b\<close> an operator when it is itself a symbol, a name
  otherwise).
\<close>

theorem C5_longest_operator:
  assumes "''<='' \<in> set symbols" and "''<'' \<in> set symbols"
    and "\<forall>s \<in> set symbols. CHR '' '' \<notin> set s"
  shows "token_texts symbols ''a <= b'' =
           Inr [(''a'', if ''a'' \<in> set (stripped symbols) then GOperator else GName),
                (''<='', GOperator),
                (''b'', if ''b'' \<in> set (stripped symbols) then GOperator else GName)]"
proof -
  from tokenize_le [OF assms] obtain tk where
    "create_tokenizer symbols = Inr tk" and
    "finditer tk ''a <= b'' =
             [\<lparr>span_start = 0, mtext = ''a'',
                mgroup = (if ''a'' \<in> set (stripped symbols) then GOperator else GName)\<rparr>,
              \<lparr>span_start = 1, mtext = '' '', mgroup = GNone\<rparr>,
              \<lparr>span_start = 2, mtext = ''<='', mgroup = GOperator\<rparr>,
              \<lparr>span_start = 4, mtext = '' '', mgroup = GNone\<rparr>,
              \<lparr>span_start = 5, mtext = ''b'',
                mgroup = (if ''b'' \<in> set (stripped symbols) then GOperator else GName)\<rparr>]"
    by blast
  then show ?thesis by (simp add: token_texts_def)
qed

theorem C5_longest_operator_witness:
  "token_texts [''<'', ''<=''] ''a <= b'' =
     Inr [(''a'', GName), (''<='', GOperator), (''b'', GName)]"
  using C5_longest_operator [of "[''<'', ''<='']"]
  by (simp add: stripped_def strip_def is_space_def)

text \<open>
  The claim as it stands, for every set of symbols with \<^verbatim>\<open><\<close> and \<^verbatim>\<open><=\<close>, fails
  when a longer registered symbol matches at the same place: with \<^verbatim>\<open><= b\<close> also
  registered, the operator token is \<^verbatim>\<open><= b\<close> and no token \<^verbatim>\<open><=\<close> is made.
\<close>

theorem C5_longer_symbol_counterexample:
  "token_texts [''<'', ''<='', ''<= b''] ''a <= b'' = Inr [(''a'', GName), (''<= b'', GOperator)]"
  by code_simp

subsection \<open>The fuel of the expression parser is enough\<close>

lemma lookup_symbol: "lookup p k = Some c \<Longrightarrow> symbol c = k"
  by (auto simp: lookup_def find_Some_iff)

lemma fetch_remaining: "fetch p st = Inr st' \<Longrightarrow> remaining st' \<le> length (tokens st)"
proof (induction p st rule: fetch.induct)
  case (1 p st)
  show ?case
  proof (cases "tokens st")
    case Nil
    with "1.prems" show ?thesis
      using lookup_symbol [of p "''(end)''"]
      by (auto simp: fetch.simps [of p st] remaining_def is_end_def new_token_def
               split: option.splits)
  next
    case (Cons m ms)
    show ?thesis
    proof (cases "mgroup m = GNone \<and> strip (mtext m) = []")
      case True
      with Cons "1.prems" have "fetch p (st\<lparr>next_match := Some m, tokens := ms\<rparr>) = Inr st'"
        by (simp add: fetch.simps [of p st] Let_def)
      with "1.IH" [OF Cons refl] True have "remaining st' \<le> length ms"
        by simp
      with Cons show ?thesis by simp
    next
      case False
      with Cons "1.prems" show ?thesis
        by (cases "mgroup m")
           (auto simp: fetch.simps [of p st] remaining_def Let_def split: option.splits sum.splits if_splits)
    qed
  qed
qed

lemma advance_remaining: "advance p syms st = Inr st' \<Longrightarrow> remaining st' < remaining st"
proof -
  assume a: "advance p syms st = Inr st'"
  then have ne: "\<not> is_end (next_token st)"
    by (auto simp: advance_def split: if_splits)
  from a have "fetch p (st\<lparr>token := next_token st, pmatch := next_match st\<rparr>) = Inr st'"
    by (auto simp: advance_def split: if_splits option.splits)
  from fetch_remaining [OF this] have "remaining st' \<le> length (tokens st)" by simp
  with ne show ?thesis by (simp add: remaining_def)
qed


lemma expression_fuel_aux:
  "(\<forall>rb st. remaining st < n \<longrightarrow>
      (\<exists>r. expression n p rb st = Some r \<and>
           (\<forall>t st'. r = Inr (t, st') \<longrightarrow> remaining st' < remaining st)))
   \<and> (\<forall>rb left st. remaining st < n \<longrightarrow>
      (\<exists>r. led_loop n p rb left st = Some r \<and>
           (\<forall>t st'. r = Inr (t, st') \<longrightarrow> remaining st' \<le> remaining st)))"
proof (induction n)
  case 0
  show ?case by simp
next
  case (Suc n)
  note IHe = Suc.IH [THEN conjunct1, rule_format]
  note IHl = Suc.IH [THEN conjunct2, rule_format]
  have loop_after: "\<exists>r. led_loop n p rb left st1 = Some r \<and>
           (\<forall>t st'. r = Inr (t, st') \<longrightarrow> remaining st' < remaining st)"
    if "remaining st1 < remaining st" "remaining st < Suc n" for rb left st1 st
  proof -
    from that have "remaining st1 < n" by simp
    from IHl [OF this, where rb=rb and left=left] obtain r where
      r: "led_loop n p rb left st1 = Some r"
         "\<forall>t st'. r = Inr (t, st') \<longrightarrow> remaining st' \<le> remaining st1" by blast
    with that(1) show ?thesis by force
  qed
  have expr_then_loop:
    "\<exists>r. (case expression n p bp st1 of
             None \<Rightarrow> None
           | Some (Inl e) \<Rightarrow> Some (Inl e)
           | Some (Inr (x, st2)) \<Rightarrow> led_loop n p rb (f x) st2) = Some r \<and>
         (\<forall>t st'. r = Inr (t, st') \<longrightarrow> remaining st' < remaining st)"
    if "remaining st1 < remaining st" "remaining st < Suc n" for rb bp f st1 st
  proof -
    from that have lt: "remaining st1 < n" by simp
    from IHe [OF lt, where rb=bp] obtain r1 where
      r1: "expression n p bp st1 = Some r1"
          "\<forall>t st'. r1 = Inr (t, st') \<longrightarrow> remaining st' < remaining st1" by blast
    show ?thesis
    proof (cases r1)
      case (Inl e)
      with r1 show ?thesis by simp
    next
      case (Inr ts)
      obtain x st2 where ts: "ts = (x, st2)" by (cases ts)
      with Inr r1 have lt2: "remaining st2 < remaining st1" by simp
      with that have "remaining st2 < remaining st" by simp
      from loop_after [OF this that(2), where rb=rb and left="f x"] Inr ts r1 show ?thesis by simp
    qed
  qed
  have E: "\<exists>r. expression (Suc n) p rb st = Some r \<and>
           (\<forall>t st'. r = Inr (t, st') \<longrightarrow> remaining st' < remaining st)"
    if lt: "remaining st < Suc n" for rb st
  proof (cases "advance p [] st")
    case (Inl e)
    then show ?thesis by simp
  next
    case (Inr st1)
    from advance_remaining [OF Inr] have dec: "remaining st1 < remaining st" .
    show ?thesis
    proof (cases "next_token st")
      case None
      with Inr show ?thesis by simp
    next
      case (Some tok)
      show ?thesis
      proof (cases "nud (cls tok)")
        case NudDefault
        with Inr Some show ?thesis by simp
      next
        case NudLiteral
        with Inr Some loop_after [OF dec lt, where rb=rb and left=tok] show ?thesis by simp
      next
        case (NudPrefix bp)
        with Inr Some expr_then_loop [OF dec lt, where bp=bp and rb=rb and f="\<lambda>x. set_operands tok [x]"]
        show ?thesis by simp
      qed
    qed
  qed
  have L: "\<exists>r. led_loop (Suc n) p rb left st = Some r \<and>
           (\<forall>t st'. r = Inr (t, st') \<longrightarrow> remaining st' \<le> remaining st)"
    if lt: "remaining st < Suc n" for rb left st
  proof (cases "next_token st")
    case None
    then show ?thesis by simp
  next
    case (Some nt)
    show ?thesis
    proof (cases "rb < lbp (cls nt)")
      case False
      with Some show ?thesis by simp
    next
      case True
      show ?thesis
      proof (cases "advance p [] st")
        case (Inl e)
        with Some True show ?thesis by simp
      next
        case (Inr st1)
        from advance_remaining [OF Inr] have dec: "remaining st1 < remaining st" .
        show ?thesis
        proof (cases "led (cls nt)")
          case LedDefault
          with Inr Some True show ?thesis by simp
        next
          case (LedInfix bp)
          from expr_then_loop [OF dec lt, where bp=bp and rb=rb
                 and f="\<lambda>r. set_operands nt ([left, r] @ drop 1 (operands nt))"]
          obtain r where "(case expression n p bp st1 of
             None \<Rightarrow> None
           | Some (Inl e) \<Rightarrow> Some (Inl e)
           | Some (Inr (x, st2)) \<Rightarrow>
               led_loop n p rb (set_operands nt ([left, x] @ drop 1 (operands nt))) st2) = Some r"
            "\<forall>t st'. r = Inr (t, st') \<longrightarrow> remaining st' < remaining st" by blast
          with LedInfix Inr Some True show ?thesis by (auto intro: less_imp_le)
        next
          case (LedInfixr bp)
          from expr_then_loop [OF dec lt, where bp="bp - 1" and rb=rb
                 and f="\<lambda>r. set_operands nt ([left, r] @ drop 1 (operands nt))"]
          obtain r where "(case expression n p (bp - 1) st1 of
             None \<Rightarrow> None
           | Some (Inl e) \<Rightarrow> Some (Inl e)
           | Some (Inr (x, st2)) \<Rightarrow>
               led_loop n p rb (set_operands nt ([left, x] @ drop 1 (operands nt))) st2) = Some r"
            "\<forall>t st'. r = Inr (t, st') \<longrightarrow> remaining st' < remaining st" by blast
          with LedInfixr Inr Some True show ?thesis by (auto intro: less_imp_le)
        qed
      qed
    qed
  qed
  from E L show ?case by blast
qed

lemma expression_fuel:
  "remaining st < n \<Longrightarrow> \<exists>r. expression n p rb st = Some r"
  using expression_fuel_aux [of n p] by blast

lemma parse_body_total: "\<exists>r. parse_body p st src = Some r"
proof (cases "tokenizer p")
  case None
  then show ?thesis by (simp add: parse_body_def top_expression_def)
next
  case (Some tk)
  show ?thesis
  proof (cases "advance p [] (st\<lparr>source := src, tokens := finditer tk src\<rparr>)")
    case (Inl e)
    with Some show ?thesis by (simp add: parse_body_def top_expression_def)
  next
    case (Inr st1)
    have "remaining st1 < length (tokens st1) + 2" by (simp add: remaining_def)
    from expression_fuel [OF this, where p=p and rb=0] obtain r where
      "expression (length (tokens st1) + 2) p 0 st1 = Some r" by blast
    with Some Inr show ?thesis
      by (cases r) (auto simp: parse_body_def top_expression_def unexpected_def split: option.splits)
  qed
qed

text \<open>
  C10. Whether \<^verbatim>\<open>parse\<close> returns or raises (and it always does one of the two), it
  leaves the token stream empty and the lookahead \<^verbatim>\<open>None\<close>.
\<close>

theorem C10_parse_clears_stream:
  "\<exists>r st'. parse p st src = Some (r, st') \<and> next_token st' = None \<and> tokens st' = []"
proof -
  from parse_body_total [of p st src] obtain r where r: "parse_body p st src = Some r" by blast
  show ?thesis
  proof (cases r)
    case (Inl a)
    with r show ?thesis by (cases a) (simp add: parse_def finally_clause_def)
  next
    case (Inr b)
    with r show ?thesis by (cases b) (simp add: parse_def finally_clause_def)
  qed
qed









subsection \<open>The node tree\<close>

lemmas node_defs = build_nodes_def alloc_def child_node_def append_child_def
  ElementNode_init_def CommentNode_init_def ProcessingInstructionNode_init_def
  DocumentNode_init_def TextNode_init_def AttributeNode_init_def NamespaceNode_init_def
  blank_node_def nsmap_of_def std_iter_root_def tree_A_def leaf_def

text \<open>
  C1. Position values should be unique and increasing in document order, 1 for the
  root of \<^verbatim>\<open><A><B1/><B2/></A>\<close> and 2 and 3 for its children. The tree built for this
  root has the three nodes in document order, the root with position 1 and with the
  two others as children; but the position of each child is the root node object
  (what \<^verbatim>\<open>_build_nodes\<close> passes third to the constructor), the same for both.
\<close>

theorem C1_children_positions:
  "map_sum id (map position) (build_nodes std_iter_root (PRaw tree_A))
     = Inr [PInt 1, PRef 0, PRef 0]
   \<and> map_sum id (map children) (build_nodes std_iter_root (PRaw tree_A))
     = Inr [[1, 2], [], []]"
  by (simp add: node_defs)

text \<open>
  C8. The namespace nodes and the attribute nodes of an element should take the
  positions after the element's, the namespace nodes before the attribute nodes and
  apart from them. For an element at position 1 with no namespace map and one
  attribute, the implicit \<^verbatim>\<open>xml\<close> namespace node gets position 2, and so does the
  attribute node; with two entries in the namespace map the namespace nodes get 2,
  3 and 4, and the attribute node 4.
\<close>

theorem C8_attribute_position_overlaps:
  "lazy_positions heap_with_attr 0 = Inr ([PInt 2], [PInt 2])
   \<and> lazy_positions heap_with_nsmap 0 = Inr ([PInt 2, PInt 3, PInt 4], [PInt 4])"
  by (simp add: lazy_positions_def namespace_nodes_def attributes_def positions_def
                heap_with_attr_def heap_with_nsmap_def elem_with_attr_def node_defs
                XML_NAMESPACE_def)

subsection \<open>The axis iterators\<close>

lemmas ctx_defs = iter_children_or_self_def children_of_item_def is_instance_def node_at_def
  std_api_def callable_tag_def restore_def yield_each_def raw_children_def getroot_def
  truthy_def

text \<open>
  C2. A drained axis iterator should leave item, position, size and axis as they
  were. The child axis on an item that is a comment of the caller's tree, with no
  axis set, yields nothing and returns with the axis set to \<^verbatim>\<open>child\<close>.
\<close>

theorem C2_child_axis_not_restored:
  "iter_children_or_self std_api comment_context
     = Inr ([], comment_context\<lparr>axis := Some ''child''\<rparr>)
   \<and> axis comment_context = None"
  by (simp add: ctx_defs comment_context_def comment_elem_def built_store_def node_defs)

text \<open>
  Every other path of the child axis that ends without an exception restores the
  focus; and the ancestor axis always does.
\<close>

lemma child_axis_restores_or_returns_early:
  assumes "iter_children_or_self api c = Inr (ys, c')"
  shows "focus c' = focus c \<or> (ys = [] \<and> axis c = None \<and> axis c' = Some ''child'')"
  using assms
  by (auto simp: iter_children_or_self_def children_of_item_def restore_def yield_each_def
                 raw_children_def focus_def Let_def
           split: if_splits option.splits sum.splits prod.splits pyobj.splits list.splits)

lemma ancestor_axis_restores:
  assumes "iter_ancestors fuel api c ax = Some (Inr (ys, c'))"
  shows "focus c' = focus c"
  using assms
  by (auto simp: iter_ancestors_def restore_def yield_each_def focus_def Let_def
           split: if_splits option.splits sum.splits prod.splits)

lemma get_parent_axis [simp]: "get_parent api (c\<lparr>axis := a\<rparr>) = get_parent api c"
  unfolding get_parent_def by simp

lemma nearest_first_axis [simp]:
  "nearest_first api (c\<lparr>axis := a\<rparr>) par ps = nearest_first api c par ps"
  by (induction ps arbitrary: par) auto





subsection \<open>The evaluation protocol\<close>

lemma neither_overridden:
  "evaluate_method tm = Default \<Longrightarrow> select_method tm = Default
   \<Longrightarrow> evaluate n tm c = None \<and> select n tm c = None"
  by (induction n) (auto split: nat.splits)

text \<open>
  C9. For a token with the default \<^verbatim>\<open>evaluate\<close>, a call returns exactly the list of
  the items that the drained \<^verbatim>\<open>select\<close> of the token yields (and nothing when that
  produces nothing). For a token with the default \<^verbatim>\<open>select\<close>: a result of
  \<^verbatim>\<open>evaluate\<close> that is neither \<^verbatim>\<open>None\<close> nor a list is yielded alone, the item of a
  supplied context being that result at the yield; a result \<^verbatim>\<open>None\<close> yields nothing.
\<close>

theorem C9_default_evaluate_select:
  "(evaluate_method tm = Default
      \<longrightarrow> evaluate (Suc n) tm c = map_option materialize (select n tm c))
   \<and> (evaluate_method tm = Default \<and> select n tm c = Some (Inr (evs, c'))
      \<longrightarrow> evaluate (Suc n) tm c = Some (Inr (PList (map fst evs), c')))
   \<and> (select_method tm = Default \<and> evaluate n tm (Some cx) = Some (Inr (v, Some cx1))
        \<and> v \<noteq> PNone \<and> (\<forall>xs. v \<noteq> PList xs)
      \<longrightarrow> select (Suc n) tm (Some cx)
            = Some (Inr ([(v, Some (cx1\<lparr>item := v\<rparr>))], Some (cx1\<lparr>item := v\<rparr>))))
   \<and> (select_method tm = Default \<and> evaluate n tm c = Some (Inr (PNone, c1))
      \<longrightarrow> select (Suc n) tm c = Some (Inr ([], c1)))"
  by (cases v) (auto simp: materialize_def yield_result_def Let_def)

theorem C9_default_evaluate_select_witness:
  "evaluate 2 pair_token None = Some (Inr (PList [PInt 1, PInt 2], None))
   \<and> select 2 five_token (Some attr_context)
       = Some (Inr ([(PInt 5, Some (attr_context\<lparr>item := PInt 5\<rparr>))],
                    Some (attr_context\<lparr>item := PInt 5\<rparr>)))"
proof
  have s: "select 1 pair_token None = Some (Inr ([(PInt 1, None), (PInt 2, None)], None))"
    by (simp add: pair_token_def)
  from C9_default_evaluate_select [of pair_token 1 None "[(PInt 1, None), (PInt 2, None)]" None,
         THEN conjunct2, THEN conjunct1] s
  show "evaluate 2 pair_token None = Some (Inr (PList [PInt 1, PInt 2], None))"
    by (simp add: pair_token_def numeral_2_eq_2)
next
  have e: "evaluate 1 five_token (Some attr_context) = Some (Inr (PInt 5, Some attr_context))"
    by (simp add: five_token_def)
  from C9_default_evaluate_select [where tm = five_token and n = 1 and cx = attr_context
         and v = "PInt 5" and ?cx1.0 = attr_context,
         THEN conjunct2, THEN conjunct2, THEN conjunct1] e
  show "select 2 five_token (Some attr_context)
       = Some (Inr ([(PInt 5, Some (attr_context\<lparr>item := PInt 5\<rparr>))],
                    Some (attr_context\<lparr>item := PInt 5\<rparr>)))"
    by (simp add: five_token_def numeral_2_eq_2)
qed

end
